theory Spec2Isabelle
  imports Complex_Main
begin

section \<open>Python strings\<close>

text \<open>
  A Python \<^verbatim>\<open>str\<close> is modelled as a \<open>string\<close>, one \<open>char\<close> per code point
  (code points below 256). \<open>isspace\<close> is \<^verbatim>\<open>str.isspace\<close> on one such code
  point; \<^verbatim>\<open>str.strip()\<close>, \<^verbatim>\<open>str.split()\<close>, \<^verbatim>\<open>int()\<close> and the
  \<^verbatim>\<open>\s\<close> class of \<^verbatim>\<open>re\<close> all use it.
\<close>

definition whitespace :: "char list" where
  "whitespace = [CHR 0x09, CHR 0x0A, CHR 0x0B, CHR 0x0C, CHR 0x0D,
                 CHR 0x1C, CHR 0x1D, CHR 0x1E, CHR 0x1F, CHR 0x20, CHR 0x85, CHR 0xA0]"

definition isspace :: "char \<Rightarrow> bool" where
  "isspace c = (c \<in> set whitespace)"

definition strip :: "string \<Rightarrow> string" where
  "strip s = rev (dropWhile isspace (rev (dropWhile isspace s)))"

text \<open>
  \<^verbatim>\<open>str.split()\<close> with no separator: runs of whitespace separate the tokens and
  no token is empty. \<open>split_ws cur s\<close> carries the token being read, reversed.
\<close>

fun split_ws :: "string \<Rightarrow> string \<Rightarrow> string list" where
  "split_ws cur [] = (if cur = [] then [] else [rev cur])"
| "split_ws cur (c # cs) =
     (if isspace c then (if cur = [] then split_ws [] cs else rev cur # split_ws [] cs)
      else split_ws (c # cur) cs)"

definition split :: "string \<Rightarrow> string list" where
  "split s = split_ws [] s"

text \<open>Truthiness of an optional string: \<^verbatim>\<open>None\<close> and \<^verbatim>\<open>""\<close> are false.\<close>

fun truthy :: "string option \<Rightarrow> bool" where
  "truthy None = False"
| "truthy (Some s) = (s \<noteq> [])"

section \<open>Library functions and the outside world\<close>

text \<open>
  \<^verbatim>\<open>datetime\<close> values are modelled as reals (seconds); only equality and
  differences of time stamps are used.
\<close>

type_synonym datetime = real

datatype ip_version = IPv4 | IPv6

text \<open>An \<^verbatim>\<open>xml.etree.ElementTree.Element\<close>: tag, attributes, child elements.\<close>

datatype element = Element (tag: string) (attrib: "(string \<times> string) list") (children: "element list")

text \<open>
  What \<^verbatim>\<open>subprocess.run(command, capture_output=True, text=True, timeout=t,
  check=False)\<close> does: it returns a completed process (return code, stdout, stderr) or
  raises; the argument of an exception is its \<^verbatim>\<open>str()\<close>.
\<close>

datatype run_outcome =
    CompletedProcess int string string
  | TimeoutExpired string
  | FileNotFoundError string
  | OtherException string

text \<open>
  The library functions the code calls, as parameters:
  \<^item> \<open>parse_network\<close>: the text parsing of \<^verbatim>\<open>ipaddress.ip_network\<close>: the address
    family, the address as an integer and the prefix length written in the text, or the
    message of the \<^verbatim>\<open>ValueError\<close>;
  \<^item> \<open>subprocess_run\<close>: \<^verbatim>\<open>subprocess.run\<close> on a command and a timeout;
  \<^item> \<open>fromstring\<close>: \<^verbatim>\<open>ET.fromstring\<close>, the root element or the message of the
    \<^verbatim>\<open>ParseError\<close>;
  \<^item> \<open>clock\<close>: the value of the \<open>k\<close>-th call of \<^verbatim>\<open>datetime.utcnow()\<close>.
\<close>

record pyenv =
  parse_network :: "string \<Rightarrow> string + (ip_version \<times> nat \<times> nat)"
  subprocess_run :: "string list \<Rightarrow> nat \<Rightarrow> run_outcome"
  fromstring :: "string \<Rightarrow> string + element"
  clock :: "nat \<Rightarrow> datetime"

text \<open>
  The state outside the program: how often the clock has been read, and the commands
  for which a child process has been created, oldest first.
\<close>

record world =
  clock_reads :: nat
  spawned :: "string list list"

definition utcnow :: "pyenv \<Rightarrow> world \<Rightarrow> datetime \<times> world" where
  "utcnow env w = (clock env (clock_reads w), w\<lparr>clock_reads := Suc (clock_reads w)\<rparr>)"

definition run_process :: "pyenv \<Rightarrow> string list \<Rightarrow> nat \<Rightarrow> world \<Rightarrow> run_outcome \<times> world" where
  "run_process env command tmo w =
     (subprocess_run env command tmo, w\<lparr>spawned := spawned w @ [command]\<rparr>)"

section \<open>Regular expressions (the part of \<^verbatim>\<open>re\<close> the denylist uses)\<close>

text \<open>
  A pattern is a character class (\<open>In\<close>), a negated class (\<open>NotIn\<close>; the dot is every
  character but the newline), a sequence, an alternative or a repetition. Matching is by
  derivatives; \<open>re_search\<close> is \<^verbatim>\<open>re.search(pattern, s) is not None\<close>: some
  substring of \<open>s\<close> matches.
\<close>

datatype rexp =
    Zero
  | One
  | In "char list"
  | NotIn "char list"
  | Times rexp rexp
  | Plus rexp rexp
  | Star rexp

fun nullable :: "rexp \<Rightarrow> bool" where
  "nullable Zero = False"
| "nullable One = True"
| "nullable (In cs) = False"
| "nullable (NotIn cs) = False"
| "nullable (Times r s) = (nullable r \<and> nullable s)"
| "nullable (Plus r s) = (nullable r \<or> nullable s)"
| "nullable (Star r) = True"

fun deriv :: "char \<Rightarrow> rexp \<Rightarrow> rexp" where
  "deriv c Zero = Zero"
| "deriv c One = Zero"
| "deriv c (In cs) = (if c \<in> set cs then One else Zero)"
| "deriv c (NotIn cs) = (if c \<in> set cs then Zero else One)"
| "deriv c (Times r s) =
     (if nullable r then Plus (Times (deriv c r) s) (deriv c s) else Times (deriv c r) s)"
| "deriv c (Plus r s) = Plus (deriv c r) (deriv c s)"
| "deriv c (Star r) = Times (deriv c r) (Star r)"

fun prefix_match :: "rexp \<Rightarrow> string \<Rightarrow> bool" where
  "prefix_match r [] = nullable r"
| "prefix_match r (c # cs) = (nullable r \<or> prefix_match (deriv c r) cs)"

fun re_search :: "rexp \<Rightarrow> string \<Rightarrow> bool" where
  "re_search r [] = nullable r"
| "re_search r (c # cs) = (prefix_match r (c # cs) \<or> re_search r cs)"

text \<open>A literal string, the dot and \<^verbatim>\<open>\s\<close>.\<close>

fun lit :: "string \<Rightarrow> rexp" where
  "lit [] = One"
| "lit (c # cs) = Times (In [c]) (lit cs)"

definition dot :: rexp where
  "dot = NotIn [CHR 0x0A]"

definition space :: rexp where
  "space = In whitespace"

section \<open>Addresses and networks (the part of \<^verbatim>\<open>ipaddress\<close> the validator uses)\<close>

text \<open>
  A network object has its family, its network address (a Python integer) and its prefix
  length; net mask, host mask, broadcast address, size, containment and overlap are
  computed from them as the library does.
\<close>

datatype ip_network = Network (version: ip_version) (network_address: nat) (prefixlen: nat)

fun max_prefixlen :: "ip_version \<Rightarrow> nat" where
  "max_prefixlen IPv4 = 32"
| "max_prefixlen IPv6 = 128"

definition ALL_ONES :: "ip_version \<Rightarrow> nat" where
  "ALL_ONES v = 2 ^ max_prefixlen v - 1"

text \<open>\<^verbatim>\<open>_ip_int_from_prefix\<close>: \<^verbatim>\<open>_ALL_ONES ^ (_ALL_ONES >> prefixlen)\<close>.\<close>

definition ip_int_from_prefix :: "ip_version \<Rightarrow> nat \<Rightarrow> nat" where
  "ip_int_from_prefix v p = Bit_Operations.xor (ALL_ONES v) (drop_bit p (ALL_ONES v))"

definition netmask :: "ip_network \<Rightarrow> nat" where
  "netmask n = ip_int_from_prefix (version n) (prefixlen n)"

definition hostmask :: "ip_network \<Rightarrow> nat" where
  "hostmask n = Bit_Operations.xor (netmask n) (ALL_ONES (version n))"

definition broadcast_address :: "ip_network \<Rightarrow> nat" where
  "broadcast_address n = Bit_Operations.or (network_address n) (hostmask n)"

definition num_addresses :: "ip_network \<Rightarrow> nat" where
  "num_addresses n = broadcast_address n - network_address n + 1"

text \<open>\<^verbatim>\<open>address in network\<close>, for an address of family \<open>v\<close>.\<close>

definition contains :: "ip_network \<Rightarrow> ip_version \<Rightarrow> nat \<Rightarrow> bool" where
  "contains n v ip =
     (if version n \<noteq> v then False
      else Bit_Operations.and ip (netmask n) = network_address n)"

definition overlaps :: "ip_network \<Rightarrow> ip_network \<Rightarrow> bool" where
  "overlaps self other =
     (contains other (version self) (network_address self) \<or>
      contains other (version self) (broadcast_address self) \<or>
      contains self (version other) (network_address other) \<or>
      contains self (version other) (broadcast_address other))"

text \<open>
  \<^verbatim>\<open>ipaddress.ip_network(address, strict=False)\<close>: the text is parsed, and host bits
  set in the address are masked off.
\<close>

definition ip_network :: "pyenv \<Rightarrow> string \<Rightarrow> string + ip_network" where
  "ip_network env address =
     (case parse_network env address of
        Inl e \<Rightarrow> Inl e
      | Inr (v, packed, p) \<Rightarrow>
          Inr (Network v (Bit_Operations.and packed (ip_int_from_prefix v p)) p))"

section \<open>Validation (tools/nmap\_scan.py, NmapValidator)\<close>

text \<open>
  The error messages, as values:
  \<^item> \<open>InvalidFormat e\<close>: \<^verbatim>\<open>f"Invalid IP/CIDR format: {str(e)}"\<close>;
  \<^item> \<open>ForbiddenRange target forbidden\<close>:
    \<^verbatim>\<open>f"Target {target} overlaps forbidden range {forbidden}"\<close>;
  \<^item> \<open>NetworkTooLarge n m\<close>: \<^verbatim>\<open>f"Network too large: {n} hosts (max {m})"\<close>;
  \<^item> \<open>InvalidScanType\<close>: \<^verbatim>\<open>f"Invalid scan type. Allowed: {', '.join(allowed_types)}"\<close>;
  \<^item> \<open>ForbiddenPattern pattern\<close>:
    \<^verbatim>\<open>f"Forbidden argument pattern detected: {pattern}"\<close>;
  \<^item> \<open>ToolFailed s\<close>: \<^verbatim>\<open>result.stderr or "Nmap scan failed"\<close>;
  \<^item> \<open>ScanTimeout t\<close>: \<^verbatim>\<open>f"Scan timeout after {self.timeout} seconds"\<close>;
  \<^item> \<open>UnexpectedError e\<close>: \<^verbatim>\<open>f"Unexpected error: {str(e)}"\<close>;
  \<^item> \<open>NotExecutable\<close>: \<^verbatim>\<open>"Nmap not available or not executable"\<close>;
  \<^item> \<open>InitFailed e\<close>: \<^verbatim>\<open>f"Nmap initialization failed: {str(e)}"\<close>;
  \<^item> \<open>Raised e\<close>: \<^verbatim>\<open>str(e)\<close> of any other exception;
  \<^item> \<open>TaskError e\<close>: \<^verbatim>\<open>f"Task execution error: {str(e)}"\<close>.
\<close>

datatype error =
    InvalidFormat string
  | ForbiddenRange string ip_network
  | NetworkTooLarge nat nat
  | InvalidScanType
  | ForbiddenPattern string
  | ToolFailed string
  | ScanTimeout nat
  | UnexpectedError string
  | NotExecutable
  | InitFailed string
  | Raised string
  | TaskError string

definition FORBIDDEN_RANGES :: "ip_network list" where
  "FORBIDDEN_RANGES =
     [Network IPv4 0x7F000000 8,
      Network IPv4 0xA9FE0000 16,
      Network IPv4 0xE0000000 4,
      Network IPv4 0xF0000000 4]"

definition MAX_IPV4_HOSTS :: nat where "MAX_IPV4_HOSTS = 256"
definition MAX_IPV6_HOSTS :: nat where "MAX_IPV6_HOSTS = 65536"

definition validate_target :: "pyenv \<Rightarrow> string \<Rightarrow> error + unit" where
  "validate_target env target0 =
     (let target = strip target0 in
      case ip_network env target of
        Inl e \<Rightarrow> Inl (InvalidFormat e)
      | Inr network \<Rightarrow>
          (case find (overlaps network) FORBIDDEN_RANGES of
             Some forbidden \<Rightarrow> Inl (ForbiddenRange target forbidden)
           | None \<Rightarrow>
               (case version network of
                  IPv4 \<Rightarrow>
                    if num_addresses network > MAX_IPV4_HOSTS
                    then Inl (NetworkTooLarge (num_addresses network) MAX_IPV4_HOSTS)
                    else Inr ()
                | IPv6 \<Rightarrow>
                    if num_addresses network > MAX_IPV6_HOSTS
                    then Inl (NetworkTooLarge (num_addresses network) MAX_IPV6_HOSTS)
                    else Inr ())))"

definition allowed_types :: "string list" where
  "allowed_types = [''default'', ''quick'', ''full'', ''stealth'', ''os'', ''vuln'', ''custom'']"

definition validate_scan_type :: "string \<Rightarrow> error + unit" where
  "validate_scan_type scan_type =
     (if scan_type \<notin> set allowed_types then Inl InvalidScanType else Inr ())"

text \<open>
  The denylist: each pattern as written in the source (\<open>bs\<close> is the backslash), with the
  expression it denotes.
\<close>

definition bs :: char where
  "bs = CHR 0x5C"

definition forbidden_patterns :: "(string \<times> rexp) list" where
  "forbidden_patterns =
     [(''--script.*'' @ bs # ''.'' @ bs # ''./'',
         Times (lit ''--script'') (Times (Star dot) (lit ''../''))),
      (''--datadir'', lit ''--datadir''),
      (''--servicedb'', lit ''--servicedb''),
      (''-oN'' @ bs # ''s*/'', Times (lit ''-oN'') (Times (Star space) (lit ''/''))),
      (''-oG'' @ bs # ''s*/'', Times (lit ''-oG'') (Times (Star space) (lit ''/''))),
      (''-oX'' @ bs # ''s*/'', Times (lit ''-oX'') (Times (Star space) (lit ''/''))),
      (''--resume'', lit ''--resume''),
      (''--stylesheet'', lit ''--stylesheet''),
      (''['' @ bs # ''$`]'', In ''$`''),
      (''[;&|<>]'', In '';&|<>'')]"

text \<open>The loop over the split arguments: both branches append the argument.\<close>

fun collect_safe_args :: "string list \<Rightarrow> string list \<Rightarrow> string list" where
  "collect_safe_args safe_args [] = safe_args"
| "collect_safe_args safe_args (arg # args_list) =
     (if take 1 arg = ''-'' then collect_safe_args (safe_args @ [arg]) args_list
      else collect_safe_args (safe_args @ [arg]) args_list)"

definition sanitize_custom_args :: "string \<Rightarrow> error + string list" where
  "sanitize_custom_args args =
     (case find (\<lambda>(pattern, r). re_search r args) forbidden_patterns of
        Some (pattern, r) \<Rightarrow> Inl (ForbiddenPattern pattern)
      | None \<Rightarrow> Inr (collect_safe_args [] (split args)))"

section \<open>The scanner (tools/nmap\_scan.py, NmapScanner)\<close>

definition SCAN_PROFILES :: "(string \<times> string list) list" where
  "SCAN_PROFILES =
     [(''quick'', [''-T4'', ''-F'']),
      (''default'', [''-T4'', ''-Pn'']),
      (''full'', [''-sS'', ''-sV'', ''-T4'', ''-p-'']),
      (''stealth'', [''-sS'', ''-T2'', ''-f'']),
      (''os'', [''-O'', ''--osscan-guess'']),
      (''vuln'', [''-sV'', ''--script=vuln'', ''-T4''])]"

text \<open>\<^verbatim>\<open>SCAN_PROFILES.get(scan_type, SCAN_PROFILES["default"])\<close>.\<close>

definition profile_args :: "string \<Rightarrow> string list" where
  "profile_args scan_type =
     (case map_of SCAN_PROFILES scan_type of
        Some args \<Rightarrow> args
      | None \<Rightarrow> the (map_of SCAN_PROFILES ''default''))"

record NmapScanner =
  nmap_path :: string
  timeout :: nat

text \<open>
  \<^verbatim>\<open>__init__\<close> runs \<^verbatim>\<open>[nmap_path, "--version"]\<close> with a timeout of 5 seconds.
  A nonzero return code raises \<^verbatim>\<open>NmapExecutionError\<close>; the log line reads the
  third word of the output (an \<^verbatim>\<open>IndexError\<close> when there is none); a timeout or
  a missing binary is re-raised as \<^verbatim>\<open>NmapExecutionError\<close>, any other exception
  passes through.
\<close>

definition NmapScanner_init :: "pyenv \<Rightarrow> string \<Rightarrow> nat \<Rightarrow> world \<Rightarrow> (error + NmapScanner) \<times> world" where
  "NmapScanner_init env path tmo w =
     (let (result, w1) = run_process env [path, ''--version''] 5 w in
      case result of
        CompletedProcess returncode out err \<Rightarrow>
          if returncode \<noteq> 0 then (Inl NotExecutable, w1)
          else if length (split out) \<le> 2 then (Inl (Raised ''list index out of range''), w1)
          else (Inr \<lparr>nmap_path = path, timeout = tmo\<rparr>, w1)
      | TimeoutExpired e \<Rightarrow> (Inl (InitFailed e), w1)
      | FileNotFoundError e \<Rightarrow> (Inl (InitFailed e), w1)
      | OtherException e \<Rightarrow> (Inl (Raised e), w1))"

definition validate_and_prepare_scan ::
  "pyenv \<Rightarrow> NmapScanner \<Rightarrow> string \<Rightarrow> string \<Rightarrow> string option \<Rightarrow> error + string list" where
  "validate_and_prepare_scan env self target scan_type custom_args =
     (case validate_target env target of
        Inl error \<Rightarrow> Inl error
      | Inr _ \<Rightarrow>
          (case validate_scan_type scan_type of
             Inl error \<Rightarrow> Inl error
           | Inr _ \<Rightarrow>
               (let command = [nmap_path self] in
                if scan_type = ''custom'' \<and> truthy custom_args then
                  (case sanitize_custom_args (the custom_args) of
                     Inl error \<Rightarrow> Inl error
                   | Inr safe_args \<Rightarrow> Inr ((command @ safe_args) @ [''-oX'', ''-''] @ [target]))
                else Inr ((command @ profile_args scan_type) @ [''-oX'', ''-''] @ [target]))))"

subsection \<open>Parsing the output document\<close>

text \<open>\<^verbatim>\<open>Element.find\<close>, \<^verbatim>\<open>Element.findall\<close> (for a plain tag) and \<^verbatim>\<open>Element.get\<close>.\<close>

definition find_el :: "element \<Rightarrow> string \<Rightarrow> element option" where
  "find_el e t = find (\<lambda>c. tag c = t) (children e)"

definition findall :: "element \<Rightarrow> string \<Rightarrow> element list" where
  "findall e t = filter (\<lambda>c. tag c = t) (children e)"

definition get :: "element \<Rightarrow> string \<Rightarrow> string option" where
  "get e k = map_of (attrib e) k"

text \<open>
  \<^verbatim>\<open>int(s)\<close> on a string: surrounding whitespace is dropped, a sign may come first,
  then decimal digits, where single underscores may stand between digits. \<open>None\<close> is the
  \<^verbatim>\<open>ValueError\<close>. On a text that is all ASCII \<^verbatim>\<open>int()\<close> drops only the six
  ASCII whitespace characters, and it refuses a text of more than 4300 digits; the
  model reads these texts too, so it reads every text that \<^verbatim>\<open>int()\<close> reads, with
  the same value.
\<close>

definition isdigit :: "char \<Rightarrow> bool" where
  "isdigit c = (48 \<le> (of_char c :: nat) \<and> (of_char c :: nat) \<le> 57)"

fun parse_digits :: "nat \<Rightarrow> string \<Rightarrow> nat option" where
  "parse_digits acc [] = Some acc"
| "parse_digits acc (c # cs) =
     (if isdigit c then parse_digits (10 * acc + (of_char c - 48)) cs
      else if c = CHR ''_'' then
        (case cs of
           [] \<Rightarrow> None
         | d # _ \<Rightarrow> if isdigit d then parse_digits acc cs else None)
      else None)"

definition unsigned_int :: "string \<Rightarrow> nat option" where
  "unsigned_int body =
     (case body of
        [] \<Rightarrow> None
      | c # _ \<Rightarrow> if isdigit c then parse_digits 0 body else None)"

definition py_int :: "string \<Rightarrow> int option" where
  "py_int s =
     (case strip s of
        [] \<Rightarrow> None
      | c # cs \<Rightarrow>
          if c = CHR ''-'' then map_option (\<lambda>n. - int n) (unsigned_int cs)
          else if c = CHR ''+'' then map_option int (unsigned_int cs)
          else map_option int (unsigned_int (c # cs)))"

text \<open>
  The dictionaries of the parsed result, as records; a key whose value may be
  \<^verbatim>\<open>None\<close> is an option. The \<^verbatim>\<open>service\<close> of a port is \<open>None\<close> for the empty
  dictionary \<^verbatim>\<open>{}\<close>.
\<close>

record service_info =
  svc_name :: "string option"
  svc_product :: "string option"
  svc_version :: "string option"
  extrainfo :: "string option"

record port_data =
  protocol :: "string option"
  portid :: int
  port_state :: "string option"
  service :: "service_info option"

record host_data =
  host_status :: "string option"
  addresses :: "(string option \<times> string option) list"
  hostnames :: "(string option \<times> string option) list"
  ports :: "port_data list"
  os :: "(string option \<times> string option) option"

record scan_stats =
  stat_hosts_up :: int
  stat_hosts_down :: int
  stat_total_hosts :: int
  stat_total_ports :: int

record results =
  scan_info :: "(string \<times> string) list"
  hosts :: "host_data list"
  stats :: scan_stats

text \<open>
  What \<^verbatim>\<open>parse_nmap_xml\<close> returns: the result dictionary, or
  \<^verbatim>\<open>{"error": f"XML parse error: {str(e)}"}\<close> (\<open>ParseFailed e\<close>).
\<close>

datatype parsed_results = Parsed results | ParseFailed string

text \<open>
  \<^verbatim>\<open>_parse_port\<close>: \<^verbatim>\<open>int(port_element.get("portid"))\<close> raises on a missing
  attribute (\<^verbatim>\<open>TypeError\<close>) and on a text that is no integer
  (\<^verbatim>\<open>ValueError\<close>); the handler returns \<^verbatim>\<open>{}\<close>, here \<open>None\<close>.
\<close>

definition parse_port :: "element \<Rightarrow> port_data option" where
  "parse_port port_element =
     (case get port_element ''portid'' of
        None \<Rightarrow> None
      | Some text \<Rightarrow>
          (case py_int text of
             None \<Rightarrow> None
           | Some n \<Rightarrow>
               Some \<lparr>protocol = get port_element ''protocol'',
                     portid = n,
                     port_state =
                       (case find_el port_element ''state'' of
                          None \<Rightarrow> None
                        | Some state_el \<Rightarrow> get state_el ''state''),
                     service =
                       (case find_el port_element ''service'' of
                          None \<Rightarrow> None
                        | Some service_el \<Rightarrow>
                            Some \<lparr>svc_name = get service_el ''name'',
                                  svc_product = get service_el ''product'',
                                  svc_version = get service_el ''version'',
                                  extrainfo = get service_el ''extrainfo''\<rparr>)\<rparr>))"

text \<open>
  \<^verbatim>\<open>_parse_host\<close>. No statement of its \<^verbatim>\<open>try\<close> block raises on an element,
  and the dictionary it returns is not empty. A port for which \<open>parse_port\<close> returns
  \<^verbatim>\<open>{}\<close> is left out.
\<close>

definition parse_host :: "element \<Rightarrow> host_data" where
  "parse_host host_element =
     \<lparr>host_status =
        (case find_el host_element ''status'' of
           None \<Rightarrow> None
         | Some status_el \<Rightarrow> get status_el ''state''),
      addresses = map (\<lambda>addr. (get addr ''addr'', get addr ''addrtype'')) (findall host_element ''address''),
      hostnames =
        (case find_el host_element ''hostnames'' of
           None \<Rightarrow> []
         | Some hostnames_el \<Rightarrow>
             map (\<lambda>hostname. (get hostname ''name'', get hostname ''type''))
               (findall hostnames_el ''hostname'')),
      ports =
        (case find_el host_element ''ports'' of
           None \<Rightarrow> []
         | Some ports_el \<Rightarrow> List.map_filter parse_port (findall ports_el ''port'')),
      os =
        (case find_el host_element ''os'' of
           None \<Rightarrow> None
         | Some os_element \<Rightarrow>
             (case find_el os_element ''osmatch'' of
                None \<Rightarrow> None
              | Some osmatch \<Rightarrow> Some (get osmatch ''name'', get osmatch ''accuracy'')))\<rparr>"

text \<open>One round of the loop over the host elements of \<^verbatim>\<open>parse_nmap_xml\<close>.\<close>

definition add_host :: "element \<Rightarrow> results \<Rightarrow> results" where
  "add_host host res =
     (let host_data = parse_host host;
          st = stats res;
          st1 = (if host_status host_data = Some ''up''
                 then st\<lparr>stat_hosts_up := stat_hosts_up st + 1\<rparr>
                 else st\<lparr>stat_hosts_down := stat_hosts_down st + 1\<rparr>);
          st2 = st1\<lparr>stat_total_ports := stat_total_ports st1 + int (length (ports host_data))\<rparr>
      in res\<lparr>hosts := hosts res @ [host_data], stats := st2\<rparr>)"

definition parse_nmap_xml :: "pyenv \<Rightarrow> string \<Rightarrow> parsed_results" where
  "parse_nmap_xml env xml_output =
     (case fromstring env xml_output of
        Inl e \<Rightarrow> ParseFailed e
      | Inr root_el \<Rightarrow>
          (let res0 = \<lparr>scan_info = [], hosts = [],
                       stats = \<lparr>stat_hosts_up = 0, stat_hosts_down = 0,
                                stat_total_hosts = 0, stat_total_ports = 0\<rparr>\<rparr>;
               res1 = (case find_el root_el ''scaninfo'' of
                         None \<Rightarrow> res0
                       | Some scaninfo \<Rightarrow> res0\<lparr>scan_info := attrib scaninfo\<rparr>);
               res2 = fold add_host (findall root_el ''host'') res1
           in Parsed (res2\<lparr>stats := (stats res2)\<lparr>stat_total_hosts := int (length (hosts res2))\<rparr>\<rparr>)))"

subsection \<open>Running the tool\<close>

text \<open>
  The dictionary \<^verbatim>\<open>execute_scan\<close> returns: with \<^verbatim>\<open>"success": True\<close> the raw
  output, the parsed results, the duration and the start time; with
  \<^verbatim>\<open>"success": False\<close> the error and, where the source sets them, the return code
  and the duration.
\<close>

datatype scan_result =
    Success string parsed_results real datetime
  | Failure error "int option" "real option"

definition execute_scan :: "pyenv \<Rightarrow> NmapScanner \<Rightarrow> string list \<Rightarrow> world \<Rightarrow> scan_result \<times> world" where
  "execute_scan env self command w =
     (let (start_time, w1) = utcnow env w;
          (result, w2) = run_process env command (timeout self) w1
      in case result of
           CompletedProcess returncode out err \<Rightarrow>
             (let (end_time, w3) = utcnow env w2;
                  duration = end_time - start_time
              in if returncode \<noteq> 0
                 then (Failure (ToolFailed (if err \<noteq> [] then err else ''Nmap scan failed''))
                         (Some returncode) (Some duration), w3)
                 else (Success out (parse_nmap_xml env out) duration start_time, w3))
         | TimeoutExpired e \<Rightarrow>
             (Failure (ScanTimeout (timeout self)) None (Some (real (timeout self))), w2)
         | FileNotFoundError e \<Rightarrow>
             (let (t, w3) = utcnow env w2
              in (Failure (UnexpectedError e) None (Some (t - start_time)), w3))
         | OtherException e \<Rightarrow>
             (let (t, w3) = utcnow env w2
              in (Failure (UnexpectedError e) None (Some (t - start_time)), w3)))"

text \<open>
  \<^verbatim>\<open>scan\<close> returns the dictionary with the keys \<^verbatim>\<open>target\<close> and
  \<^verbatim>\<open>scan_type\<close> added: here a triple.
\<close>

definition scan ::
  "pyenv \<Rightarrow> NmapScanner \<Rightarrow> string \<Rightarrow> string \<Rightarrow> string option \<Rightarrow> world
     \<Rightarrow> (scan_result \<times> string \<times> string) \<times> world" where
  "scan env self target scan_type custom_args w =
     (case validate_and_prepare_scan env self target scan_type custom_args of
        Inl error \<Rightarrow> ((Failure error None None, target, scan_type), w)
      | Inr command \<Rightarrow>
          (let (result, w1) = execute_scan env self command w
           in ((result, target, scan_type), w1)))"

definition run_nmap_scan ::
  "pyenv \<Rightarrow> string \<Rightarrow> string \<Rightarrow> string option \<Rightarrow> world
     \<Rightarrow> (scan_result \<times> string \<times> string) \<times> world" where
  "run_nmap_scan env target scan_type custom_args w =
     (let (scanner, w1) = NmapScanner_init env ''/usr/bin/nmap'' 300 w
      in case scanner of
           Inl e \<Rightarrow> ((Failure e None None, target, scan_type), w1)
         | Inr self \<Rightarrow> scan env self target scan_type custom_args w1)"

section \<open>Scan lifecycle record (db/models.py)\<close>

text \<open>The values of the \<^verbatim>\<open>ScanStatus\<close> enumeration (a \<^verbatim>\<open>str\<close> enum).\<close>

definition QUEUED :: string where "QUEUED = ''queued''"
definition RUNNING :: string where "RUNNING = ''running''"
definition COMPLETED :: string where "COMPLETED = ''completed''"
definition FAILED :: string where "FAILED = ''failed''"
definition CANCELLED :: string where "CANCELLED = ''cancelled''"

text \<open>
  A row of the table \<^verbatim>\<open>scan_results\<close>. \<open>ident\<close> is the column \<^verbatim>\<open>id\<close>; the
  JSON text in \<^verbatim>\<open>parsed_results\<close> is modelled by the value it serialises.
\<close>

record ScanResult =
  ident :: int
  task_id :: "string option"
  user_id :: int
  target :: string
  scan_type :: string
  scan_args :: "string option"
  status :: string
  priority :: int
  started_at :: "datetime option"
  completed_at :: "datetime option"
  duration_seconds :: "real option"
  raw_output :: "string option"
  parsed_results :: "parsed_results option"
  error_message :: "error option"
  hosts_up :: int
  ports_found :: int
  vulnerabilities_found :: int
  created_at :: "datetime option"
  updated_at :: "datetime option"

text \<open>Whether the text of an error message is the empty string.\<close>

fun empty_message :: "error \<Rightarrow> bool" where
  "empty_message (Raised e) = (e = [])"
| "empty_message (ToolFailed e) = (e = [])"
| "empty_message _ = False"

text \<open>
  \<^verbatim>\<open>update_status\<close>. The clock is read once for \<^verbatim>\<open>updated_at\<close> and once more
  in the branch that sets \<^verbatim>\<open>started_at\<close> or \<^verbatim>\<open>completed_at\<close>. A
  \<^verbatim>\<open>datetime\<close> is never false, so \<^verbatim>\<open>not self.started_at\<close> holds exactly for
  \<^verbatim>\<open>None\<close>.
\<close>

definition update_status ::
  "pyenv \<Rightarrow> string \<Rightarrow> error option \<Rightarrow> ScanResult \<Rightarrow> world \<Rightarrow> ScanResult \<times> world" where
  "update_status env st msg self w =
     (let (t0, w1) = utcnow env w;
          s1 = self\<lparr>status := st, updated_at := Some t0\<rparr>;
          (s2, w2) =
            (if st = RUNNING \<and> started_at s1 = None then
               (let (t1, w') = utcnow env w1 in (s1\<lparr>started_at := Some t1\<rparr>, w'))
             else if st \<in> set [COMPLETED, FAILED] then
               (let (t1, w') = utcnow env w1;
                    s' = s1\<lparr>completed_at := Some t1\<rparr>
                in (case started_at s' of
                      None \<Rightarrow> (s', w')
                    | Some t \<Rightarrow> (s'\<lparr>duration_seconds := Some (t1 - t)\<rparr>, w')))
             else (s1, w1));
          s3 = (case msg of
                  None \<Rightarrow> s2
                | Some m \<Rightarrow> if empty_message m then s2 else s2\<lparr>error_message := Some m\<rparr>)
      in (s3, w2))"

section \<open>The request handlers (app.py)\<close>

text \<open>
  The record \<^verbatim>\<open>create_scan\<close> stores for an accepted request: status
  \<^verbatim>\<open>queued\<close>, the column defaults elsewhere (\<^verbatim>\<open>created_at\<close> and
  \<^verbatim>\<open>updated_at\<close> default to the clock). The JSON text in
  \<^verbatim>\<open>scan_args\<close> is modelled by the string it serialises; the clock readings that
  the database layer makes on its own at a commit are not counted.
\<close>

definition new_scan ::
  "pyenv \<Rightarrow> int \<Rightarrow> int \<Rightarrow> string \<Rightarrow> string \<Rightarrow> string option \<Rightarrow> int \<Rightarrow> world \<Rightarrow> ScanResult \<times> world" where
  "new_scan env new_id user tgt stype cargs prio w =
     (let (t0, w1) = utcnow env w;
          (t1, w2) = utcnow env w1
      in (\<lparr>ident = new_id, task_id = None, user_id = user, target = tgt, scan_type = stype,
           scan_args = (if truthy cargs then cargs else None),
           status = QUEUED, priority = prio,
           started_at = None, completed_at = None, duration_seconds = None,
           raw_output = None, parsed_results = None, error_message = None,
           hosts_up = 0, ports_found = 0, vulnerabilities_found = 0,
           created_at = Some t0, updated_at = Some t1\<rparr>, w2))"

text \<open>
  \<^verbatim>\<open>cancel_scan\<close>, for a scan that exists and that the caller may cancel: the HTTP
  status code and the record. Revoking the queued task is an effect on the job queue
  and leaves the record as it is.
\<close>

definition cancel_scan :: "pyenv \<Rightarrow> ScanResult \<Rightarrow> world \<Rightarrow> (nat \<times> ScanResult) \<times> world" where
  "cancel_scan env sc w =
     (if status sc \<notin> set [QUEUED, RUNNING] then ((400, sc), w)
      else (let (sc', w') = update_status env CANCELLED None sc w in ((200, sc'), w')))"

section \<open>The worker (worker.py)\<close>

text \<open>
  The loop of \<^verbatim>\<open>execute_scan_task\<close> that counts, over all hosts and all their
  ports, the services whose \<^verbatim>\<open>extrainfo\<close> is true (present and not empty).
\<close>

definition count_port :: "port_data \<Rightarrow> int \<Rightarrow> int" where
  "count_port port vuln_count =
     (case service port of
        None \<Rightarrow> vuln_count
      | Some svc \<Rightarrow> if truthy (extrainfo svc) then vuln_count + 1 else vuln_count)"

definition count_vulnerabilities :: "host_data list \<Rightarrow> int" where
  "count_vulnerabilities hs = fold (\<lambda>host vuln_count. fold count_port (ports host) vuln_count) hs 0"

text \<open>\<^verbatim>\<open>parsed.get("stats", {})\<close>, \<^verbatim>\<open>parsed.get("hosts", [])\<close>.\<close>

fun stats_of :: "parsed_results \<Rightarrow> scan_stats option" where
  "stats_of (Parsed res) = Some (stats res)"
| "stats_of (ParseFailed e) = None"

fun hosts_of :: "parsed_results \<Rightarrow> host_data list" where
  "hosts_of (Parsed res) = hosts res"
| "hosts_of (ParseFailed e) = []"

text \<open>
  A \<^verbatim>\<open>DatabaseTask\<close>. \<open>db_loaded\<close> tells whether the property \<^verbatim>\<open>db\<close> has
  been read: the first read creates the Flask application and stores it in
  \<^verbatim>\<open>_app\<close>. \<^verbatim>\<open>get_app_context()\<close> returns \<^verbatim>\<open>self._app.app_context()\<close>;
  before that read \<^verbatim>\<open>self._app\<close> is no Flask application and the call raises
  \<^verbatim>\<open>AttributeError\<close>.
\<close>

datatype task_exception = AttributeError

record DatabaseTask =
  db_loaded :: bool

definition get_app_context :: "DatabaseTask \<Rightarrow> task_exception + unit" where
  "get_app_context self = (if db_loaded self then Inr () else Inl AttributeError)"

text \<open>
  \<^verbatim>\<open>execute_scan_task\<close> for a scan record that exists; \<open>request_id\<close> is
  \<^verbatim>\<open>self.request.id\<close>. The task enters \<^verbatim>\<open>self.get_app_context()\<close> first,
  outside its \<^verbatim>\<open>try\<close> block: when that raises, the exception leaves the task
  (\<open>Inl\<close>) and neither the record nor the world has changed. Otherwise the result is the
  record as committed and the world; the dictionary the task returns repeats fields of
  the record. The read of \<^verbatim>\<open>self.db\<close> inside the block finds the property loaded.
  Failures of the database session are not part of the model, so no statement of the
  \<^verbatim>\<open>try\<close> block raises and its handler, which would record \<open>TaskError\<close>, is not
  reached.
\<close>

definition execute_scan_task ::
  "pyenv \<Rightarrow> DatabaseTask \<Rightarrow> string \<Rightarrow> ScanResult \<Rightarrow> string \<Rightarrow> string \<Rightarrow> string option \<Rightarrow> world
     \<Rightarrow> task_exception + ScanResult \<times> world" where
  "execute_scan_task env self request_id sc tgt stype cargs w =
     (case get_app_context self of
        Inl ex \<Rightarrow> Inl ex
      | Inr _ \<Rightarrow>
          Inr
            (let (sc1, w1) = update_status env RUNNING None sc w;
                 sc2 = sc1\<lparr>task_id := Some request_id\<rparr>;
                 ((result, _), w2) = run_nmap_scan env tgt stype cargs w1
             in case result of
                  Success out parsed duration ts \<Rightarrow>
                    (let sc3 = sc2\<lparr>raw_output := Some out, parsed_results := Some parsed,
                                    duration_seconds := Some duration\<rparr>;
                         sc4 = sc3\<lparr>hosts_up :=
                                      (case stats_of parsed of
                                         None \<Rightarrow> 0
                                       | Some s \<Rightarrow> stat_hosts_up s),
                                    ports_found :=
                                      (case stats_of parsed of
                                         None \<Rightarrow> 0
                                       | Some s \<Rightarrow> stat_total_ports s)\<rparr>;
                         sc5 = (if stype = ''vuln''
                                then sc4\<lparr>vulnerabilities_found :=
                                           count_vulnerabilities (hosts_of parsed)\<rparr>
                                else sc4)
                     in update_status env COMPLETED None sc5 w2)
                | Failure error_msg rc dur \<Rightarrow>
                    update_status env FAILED (Some error_msg) sc2 w2))"

section \<open>The claims' vocabulary, and a concrete environment\<close>

text \<open>
  The address range of a network: the addresses of its family from the network address
  to the broadcast address.
\<close>

definition in_range :: "ip_network \<Rightarrow> ip_version \<Rightarrow> nat \<Rightarrow> bool" where
  "in_range n v a = (version n = v \<and> network_address n \<le> a \<and> a \<le> broadcast_address n)"

text \<open>Terminal states of a scan.\<close>

definition terminal :: "string \<Rightarrow> bool" where
  "terminal st = (st \<in> set [COMPLETED, FAILED, CANCELLED])"

text \<open>A port's service carries a non-empty extra-info annotation.\<close>

definition has_extrainfo :: "port_data \<Rightarrow> bool" where
  "has_extrainfo port =
     (case service port of
        None \<Rightarrow> False
      | Some svc \<Rightarrow> (case extrainfo svc of None \<Rightarrow> False | Some text \<Rightarrow> text \<noteq> []))"

text \<open>
  An output document with one host that is up and three ports: 22 with an annotated
  service, 70000 without a service, 0 with a service whose annotation is empty.
  \<open>dq\<close> is the double quote.
\<close>

definition dq :: char where
  "dq = CHR 0x22"

definition example_xml :: string where
  "example_xml =
     ''<nmaprun><host><status state='' @ dq # ''up'' @ dq # ''/><ports>'' @
     ''<port protocol='' @ dq # ''tcp'' @ dq # '' portid='' @ dq # ''22'' @ dq # ''>'' @
     ''<service name='' @ dq # ''ssh'' @ dq # '' extrainfo='' @ dq # ''protocol 2.0'' @ dq # ''/></port>'' @
     ''<port protocol='' @ dq # ''tcp'' @ dq # '' portid='' @ dq # ''70000'' @ dq # ''/>'' @
     ''<port protocol='' @ dq # ''tcp'' @ dq # '' portid='' @ dq # ''0'' @ dq # ''>'' @
     ''<service name='' @ dq # ''x'' @ dq # '' extrainfo='' @ dq # dq # ''/></port>'' @
     ''</ports></host></nmaprun>''"

definition example_root :: element where
  "example_root =
     Element ''nmaprun'' []
       [Element ''host'' []
          [Element ''status'' [(''state'', ''up'')] [],
           Element ''ports'' []
             [Element ''port'' [(''protocol'', ''tcp''), (''portid'', ''22'')]
                [Element ''service'' [(''name'', ''ssh''), (''extrainfo'', ''protocol 2.0'')] []],
              Element ''port'' [(''protocol'', ''tcp''), (''portid'', ''70000'')] [],
              Element ''port'' [(''protocol'', ''tcp''), (''portid'', ''0'')]
                [Element ''service'' [(''name'', ''x''), (''extrainfo'', [])] []]]]]"

text \<open>
  An environment for concrete runs: the library parses four targets, the tool is
  installed, it prints text that is no XML for the target 192.168.1.5 and the document
  above for 10.0.0.5, and the \<open>k\<close>-th reading of the clock is \<open>k\<close>.
\<close>

definition example_env :: pyenv where
  "example_env =
     \<lparr>parse_network =
        (\<lambda>s. if s = ''192.168.1.5'' then Inr (IPv4, 0xC0A80105, 32)
             else if s = ''10.0.0.5'' then Inr (IPv4, 0x0A000005, 32)
             else if s = ''10.0.0.0/8'' then Inr (IPv4, 0x0A000000, 8)
             else if s = ''127.0.0.1'' then Inr (IPv4, 0x7F000001, 32)
             else Inl (CHR 0x27 # s @ CHR 0x27 # '' does not appear to be an IPv4 or IPv6 network'')),
      subprocess_run =
        (\<lambda>command tmo.
           if command = [''/usr/bin/nmap'', ''--version'']
           then CompletedProcess 0 ''Nmap version 7.94 ( https://nmap.org )'' []
           else if last command = ''192.168.1.5'' then CompletedProcess 0 ''not xml'' []
           else if last command = ''10.0.0.5'' then CompletedProcess 0 example_xml []
           else CompletedProcess 1 [] ''Failed to resolve''),
      fromstring =
        (\<lambda>s. if s = example_xml then Inr example_root
             else Inl ''syntax error: line 1, column 0''),
      clock = real\<rparr>"

definition world0 :: world where
  "world0 = \<lparr>clock_reads = 0, spawned = []\<rparr>"

text \<open>
  A queued record for the target 192.168.1.5 and one for a vulnerability scan of
  10.0.0.5, as \<open>new_scan\<close> stores them, and the world after each.
\<close>

definition example_scan :: ScanResult where
  "example_scan = fst (new_scan example_env 1 1 ''192.168.1.5'' ''default'' None 5 world0)"

definition world1 :: world where
  "world1 = snd (new_scan example_env 1 1 ''192.168.1.5'' ''default'' None 5 world0)"

definition example_vuln_scan :: ScanResult where
  "example_vuln_scan = fst (new_scan example_env 2 1 ''10.0.0.5'' ''vuln'' None 5 world0)"

text \<open>
  The record of the scan of 192.168.1.5 after \<^verbatim>\<open>create_scan\<close> could not queue
  its task: the handler of that exception calls \<open>update_status\<close> with
  \<^verbatim>\<open>failed\<close> and the text of the exception.
\<close>

definition example_failed_scan :: ScanResult where
  "example_failed_scan =
     fst (update_status example_env FAILED (Some (Raised ''Connection refused''))
            example_scan world1)"

text \<open>
  The task object as the worker holds it, with \<^verbatim>\<open>db\<close> never read, and a task
  object whose \<^verbatim>\<open>db\<close> has been read.
\<close>

definition worker_task :: DatabaseTask where
  "worker_task = \<lparr>db_loaded = False\<rparr>"

definition attached_task :: DatabaseTask where
  "attached_task = \<lparr>db_loaded = True\<rparr>"

text \<open>The record a run of the task has committed; \<open>None\<close> when the task raised.\<close>

definition committed :: "task_exception + ScanResult \<times> world \<Rightarrow> ScanResult option" where
  "committed r = (case r of Inl ex \<Rightarrow> None | Inr (sc, w) \<Rightarrow> Some sc)"

text \<open>The equivalence of the lifecycle: the status is terminal exactly when \<^verbatim>\<open>completed_at\<close> is set.\<close>

definition lifecycle_inv :: "ScanResult \<Rightarrow> bool" where
  "lifecycle_inv sc = (terminal (status sc) = (completed_at sc \<noteq> None))"

definition example_host :: element where
  "example_host = hd (children example_root)"

section \<open>Evaluating the concrete environment\<close>

lemmas network_defs =
  overlaps_def contains_def netmask_def hostmask_def broadcast_address_def num_addresses_def
  ip_int_from_prefix_def ALL_ONES_def FORBIDDEN_RANGES_def MAX_IPV4_HOSTS_def MAX_IPV6_HOSTS_def

lemmas string_defs = strip_def isspace_def whitespace_def

lemmas ScanStatus_defs = QUEUED_def RUNNING_def COMPLETED_def FAILED_def CANCELLED_def

lemmas pattern_defs = forbidden_patterns_def dot_def space_def whitespace_def bs_def

lemmas example_defs =
  example_scan_def example_vuln_scan_def world1_def world0_def new_scan_def

lemma ex_clock: "clock example_env k = real k"
  by (simp add: example_env_def)

lemma ex_version:
  "subprocess_run example_env [''/usr/bin/nmap'', ''--version''] t =
     CompletedProcess 0 ''Nmap version 7.94 ( https://nmap.org )'' []"
  by (simp add: example_env_def)

lemma ex_run_unparsable:
  "subprocess_run example_env
       [''/usr/bin/nmap'', ''-T4'', ''-Pn'', ''-oX'', ''-'', ''192.168.1.5''] t =
     CompletedProcess 0 ''not xml'' []"
  by (simp add: example_env_def)

lemma ex_run_vuln:
  "subprocess_run example_env
       [''/usr/bin/nmap'', ''-sV'', ''--script=vuln'', ''-T4'', ''-oX'', ''-'', ''10.0.0.5''] t =
     CompletedProcess 0 example_xml []"
  by (simp add: example_env_def)

lemma ex_fromstring_unparsable:
  "fromstring example_env ''not xml'' = Inl ''syntax error: line 1, column 0''"
  by (simp add: example_env_def example_xml_def)

lemma ex_fromstring_xml: "fromstring example_env example_xml = Inr example_root"
  by (simp add: example_env_def)

lemma strip_examples:
  "strip ''127.0.0.1'' = ''127.0.0.1''" "strip ''10.0.0.0/8'' = ''10.0.0.0/8''"
  by (simp_all add: string_defs)

lemma ip_network_examples:
  "ip_network example_env ''127.0.0.1'' = Inr (Network IPv4 2130706433 32)"
  "ip_network example_env ''10.0.0.0/8'' = Inr (Network IPv4 167772160 8)"
  by (simp_all add: ip_network_def example_env_def ip_int_from_prefix_def ALL_ONES_def)

lemma validate_target_example: "validate_target example_env ''192.168.1.5'' = Inr ()"
  by (simp add: validate_target_def ip_network_def example_env_def string_defs network_defs)

lemma validate_target_example2: "validate_target example_env ''10.0.0.5'' = Inr ()"
  by (simp add: validate_target_def ip_network_def example_env_def string_defs network_defs)

lemma init_example:
  "NmapScanner_init example_env ''/usr/bin/nmap'' 300 w =
     (Inr \<lparr>nmap_path = ''/usr/bin/nmap'', timeout = 300\<rparr>,
      w\<lparr>spawned := spawned w @ [[''/usr/bin/nmap'', ''--version'']]\<rparr>)"
  by (simp add: NmapScanner_init_def run_process_def ex_version split_def isspace_def
      whitespace_def)

lemma run_nmap_scan_unparsable:
  "run_nmap_scan example_env ''192.168.1.5'' ''default'' None w =
     ((Success ''not xml'' (ParseFailed ''syntax error: line 1, column 0'') 1
         (real (clock_reads w)),
       ''192.168.1.5'', ''default''),
      w\<lparr>clock_reads := Suc (Suc (clock_reads w)),
        spawned := spawned w @ [[''/usr/bin/nmap'', ''--version''],
          [''/usr/bin/nmap'', ''-T4'', ''-Pn'', ''-oX'', ''-'', ''192.168.1.5'']]\<rparr>)"
  by (simp add: run_nmap_scan_def init_example scan_def validate_and_prepare_scan_def
      validate_target_example validate_scan_type_def allowed_types_def profile_args_def
      SCAN_PROFILES_def execute_scan_def utcnow_def run_process_def ex_run_unparsable
      parse_nmap_xml_def ex_fromstring_unparsable ex_clock)

lemma run_nmap_scan_vuln:
  "run_nmap_scan example_env ''10.0.0.5'' ''vuln'' None w =
     ((Success example_xml (parse_nmap_xml example_env example_xml) 1 (real (clock_reads w)),
       ''10.0.0.5'', ''vuln''),
      w\<lparr>clock_reads := Suc (Suc (clock_reads w)),
        spawned := spawned w @ [[''/usr/bin/nmap'', ''--version''],
          [''/usr/bin/nmap'', ''-sV'', ''--script=vuln'', ''-T4'', ''-oX'', ''-'', ''10.0.0.5'']]\<rparr>)"
  by (simp add: run_nmap_scan_def init_example scan_def validate_and_prepare_scan_def
      validate_target_example2 validate_scan_type_def allowed_types_def profile_args_def
      SCAN_PROFILES_def execute_scan_def utcnow_def run_process_def ex_run_vuln ex_clock)

lemma py_int_examples:
  "py_int ''22'' = Some 22" "py_int ''70000'' = Some 70000" "py_int ''0'' = Some 0"
  by (simp_all add: py_int_def unsigned_int_def isdigit_def string_defs)

lemma example_ports:
  "ports (parse_host example_host) =
     [\<lparr>protocol = Some ''tcp'', portid = 22, port_state = None,
       service = Some \<lparr>svc_name = Some ''ssh'', svc_product = None, svc_version = None,
                       extrainfo = Some ''protocol 2.0''\<rparr>\<rparr>,
      \<lparr>protocol = Some ''tcp'', portid = 70000, port_state = None, service = None\<rparr>,
      \<lparr>protocol = Some ''tcp'', portid = 0, port_state = None,
       service = Some \<lparr>svc_name = Some ''x'', svc_product = None, svc_version = None,
                       extrainfo = Some []\<rparr>\<rparr>]"
  by (simp add: parse_host_def example_host_def example_root_def find_el_def findall_def
      List.map_filter_def parse_port_def get_def py_int_examples)

lemma example_hosts:
  "hosts_of (parse_nmap_xml example_env example_xml) = [parse_host example_host]"
  by (simp add: parse_nmap_xml_def ex_fromstring_xml example_root_def example_host_def
      find_el_def findall_def add_host_def Let_def)

section \<open>Target validation\<close>

subsection \<open>Net masks and address blocks\<close>

lemma ALL_ONES_mask: "ALL_ONES v = mask (max_prefixlen v)"
  by (simp add: ALL_ONES_def mask_eq_exp_minus_1)

lemma bit_ip_int_from_prefix:
  "bit (ip_int_from_prefix v p) i \<longleftrightarrow> max_prefixlen v - p \<le> i \<and> i < max_prefixlen v"
  by (auto simp add: ip_int_from_prefix_def ALL_ONES_mask bit_simps)

lemma and_netmask:
  "Bit_Operations.and x (ip_int_from_prefix v p) =
     push_bit (max_prefixlen v - p)
       (drop_bit (max_prefixlen v - p) (take_bit (max_prefixlen v) x))"
  by (rule bit_eqI) (auto simp add: bit_simps bit_ip_int_from_prefix)

lemma hostmask_eq: "hostmask (Network v a p) = mask (max_prefixlen v - p)"
  by (rule bit_eqI)
    (auto simp add: hostmask_def netmask_def bit_simps bit_ip_int_from_prefix ALL_ONES_mask)

text \<open>
  A network whose host bits are masked off is the block of \<open>2 ^ h\<close> addresses that starts
  at \<open>k * 2 ^ h\<close>, where \<open>h\<close> is the number of host bits.
\<close>

lemma broadcast_normalised:
  fixes packed :: nat
  assumes h_def: "h = max_prefixlen v - p"
    and k_def: "k = drop_bit h (take_bit (max_prefixlen v) packed)"
    and na: "na = Bit_Operations.and packed (ip_int_from_prefix v p)"
  shows "na = k * 2 ^ h" and "broadcast_address (Network v na p) = k * 2 ^ h + (2 ^ h - 1)"
    and "k * 2 ^ h + 2 ^ h \<le> 2 ^ max_prefixlen v"
proof -
  show na_eq: "na = k * 2 ^ h"
    by (simp add: na and_netmask h_def k_def push_bit_eq_mult)
  have "Bit_Operations.or (push_bit h k) (mask h) = push_bit h k + mask h"
    by (rule disjunctive_add [symmetric]) (auto simp add: bit_simps)
  then show "broadcast_address (Network v na p) = k * 2 ^ h + (2 ^ h - 1)"
    by (simp add: broadcast_address_def hostmask_eq na_eq h_def [symmetric] push_bit_eq_mult
        mask_eq_exp_minus_1)
  have le: "h \<le> max_prefixlen v" by (simp add: h_def)
  have "take_bit (max_prefixlen v) packed < 2 ^ max_prefixlen v" by simp
  then have "k < 2 ^ (max_prefixlen v - h)"
    unfolding k_def drop_bit_eq_div using le
    by (metis less_mult_imp_div_less power_add le_add_diff_inverse2)
  then have "Suc k \<le> 2 ^ (max_prefixlen v - h)" by simp
  then have "Suc k * 2 ^ h \<le> 2 ^ (max_prefixlen v - h) * 2 ^ h" by (rule mult_le_mono1)
  then show "k * 2 ^ h + 2 ^ h \<le> 2 ^ max_prefixlen v"
    using le by (simp add: power_add [symmetric])
qed

lemma block_bounds:
  "(0::nat) < B \<Longrightarrow> (m \<le> ip \<and> ip \<le> m + (B - 1)) = (m \<le> ip \<and> ip < m + B)"
  by auto

lemma block_size:
  "(0::nat) < B \<Longrightarrow> m + (B - 1) - m + 1 = B \<and> m + (B - 1) < m + B"
  by auto

lemma network_address_simp: "network_address (Network v na p) = na"
  by simp

text \<open>
  For such a network the library's containment test by mask agrees with the range from
  the network address to the broadcast address.
\<close>

lemma contains_iff_in_range:
  fixes packed :: nat
  assumes na: "na = Bit_Operations.and packed (ip_int_from_prefix v p)"
    and ip: "ip < 2 ^ max_prefixlen v"
  shows "contains (Network v na p) v ip \<longleftrightarrow> in_range (Network v na p) v ip"
proof -
  define h where "h = max_prefixlen v - p"
  define k where "k = drop_bit h (take_bit (max_prefixlen v) packed)"
  note n = broadcast_normalised [OF h_def k_def na]
  have pos: "(0::nat) < 2 ^ h" by simp
  from ip have tb: "take_bit (max_prefixlen v) ip = ip" by (simp add: take_bit_nat_eq_self)
  have c: "contains (Network v na p) v ip \<longleftrightarrow> (ip div 2 ^ h) * 2 ^ h = k * 2 ^ h"
    by (simp add: contains_def netmask_def and_netmask tb h_def [symmetric] drop_bit_eq_div
        push_bit_eq_mult n(1))
  have "in_range (Network v na p) v ip \<longleftrightarrow> na \<le> ip \<and> ip \<le> k * 2 ^ h + (2 ^ h - 1)"
    by (simp add: in_range_def n(2))
  then have r: "in_range (Network v na p) v ip \<longleftrightarrow> k * 2 ^ h \<le> ip \<and> ip < k * 2 ^ h + 2 ^ h"
    unfolding n(1) [symmetric] using block_bounds [OF pos, of na ip] by simp
  have "ip div 2 ^ h = k \<longleftrightarrow> k * 2 ^ h \<le> ip \<and> ip < k * 2 ^ h + 2 ^ h"
  proof
    assume "ip div 2 ^ h = k"
    then show "k * 2 ^ h \<le> ip \<and> ip < k * 2 ^ h + 2 ^ h"
      using pos by (metis div_mult_mod_eq le_add1 mod_less_divisor nat_add_left_cancel_less)
  next
    assume "k * 2 ^ h \<le> ip \<and> ip < k * 2 ^ h + 2 ^ h"
    then have "k * 2 ^ h \<le> ip" "ip < (k + 1) * 2 ^ h" by (simp_all add: algebra_simps)
    then show "ip div 2 ^ h = k"
      by (metis div_nat_eqI mult.commute Suc_eq_plus1)
  qed
  with c r show ?thesis by simp
qed

lemma normalised_bounds:
  fixes packed :: nat
  assumes na: "na = Bit_Operations.and packed (ip_int_from_prefix v p)"
  shows "na \<le> broadcast_address (Network v na p)"
    and "broadcast_address (Network v na p) < 2 ^ max_prefixlen v"
    and "num_addresses (Network v na p) = 2 ^ (max_prefixlen v - p)"
proof -
  define h where "h = max_prefixlen v - p"
  define k where "k = drop_bit h (take_bit (max_prefixlen v) packed)"
  note n = broadcast_normalised [OF h_def k_def na]
  have pos: "(0::nat) < 2 ^ h" by simp
  have bc: "broadcast_address (Network v na p) = na + (2 ^ h - 1)"
    unfolding n(2) n(1) [symmetric] ..
  show "na \<le> broadcast_address (Network v na p)"
    unfolding bc by (rule le_add1)
  show "broadcast_address (Network v na p) < 2 ^ max_prefixlen v"
    unfolding n(2) using n(3) block_size [OF pos, of "k * 2 ^ h"] by linarith
  show "num_addresses (Network v na p) = 2 ^ (max_prefixlen v - p)"
    unfolding num_addresses_def bc h_def [symmetric] network_address_simp
    using block_size [OF pos, of na] by simp
qed

text \<open>
  The library's \<^verbatim>\<open>overlaps\<close> on two such networks holds exactly when their ranges
  share an address.
\<close>

lemma overlaps_iff_common_address:
  fixes packed1 packed2 :: nat
  assumes n1: "n1 = Network v1 (Bit_Operations.and packed1 (ip_int_from_prefix v1 p1)) p1"
    and n2: "n2 = Network v2 (Bit_Operations.and packed2 (ip_int_from_prefix v2 p2)) p2"
  shows "overlaps n1 n2 \<longleftrightarrow> (\<exists>v a. in_range n1 v a \<and> in_range n2 v a)"
proof (cases "v1 = v2")
  case False
  then show ?thesis by (auto simp add: overlaps_def contains_def in_range_def n1 n2)
next
  case True
  define a1 where "a1 = Bit_Operations.and packed1 (ip_int_from_prefix v1 p1)"
  define a2 where "a2 = Bit_Operations.and packed2 (ip_int_from_prefix v1 p2)"
  have N1: "n1 = Network v1 a1 p1" and N2: "n2 = Network v1 a2 p2"
    using n1 n2 True by (simp_all add: a1_def a2_def)
  note b1 = normalised_bounds [OF a1_def] and b2 = normalised_bounds [OF a2_def]
  have lt: "a1 < 2 ^ max_prefixlen v1" "a2 < 2 ^ max_prefixlen v1"
    using b1(1,2) b2(1,2) by linarith+
  have c1: "contains n1 v1 ip \<longleftrightarrow> in_range n1 v1 ip" if "ip < 2 ^ max_prefixlen v1" for ip
    unfolding N1 using that by (rule contains_iff_in_range [OF a1_def])
  have c2: "contains n2 v1 ip \<longleftrightarrow> in_range n2 v1 ip" if "ip < 2 ^ max_prefixlen v1" for ip
    unfolding N2 using that by (rule contains_iff_in_range [OF a2_def])
  have self1: "in_range n1 v1 a1" "in_range n1 v1 (broadcast_address n1)"
    using b1(1) by (simp_all add: in_range_def N1)
  have self2: "in_range n2 v1 a2" "in_range n2 v1 (broadcast_address n2)"
    using b2(1) by (simp_all add: in_range_def N2)
  have o: "overlaps n1 n2 \<longleftrightarrow>
      in_range n2 v1 a1 \<or> in_range n2 v1 (broadcast_address n1) \<or>
      in_range n1 v1 a2 \<or> in_range n1 v1 (broadcast_address n2)"
    using c2 [OF lt(1)] c2 [of "broadcast_address n1"] c1 [OF lt(2)]
      c1 [of "broadcast_address n2"] b1(2) b2(2)
    by (simp add: overlaps_def N1 N2)
  show ?thesis
  proof
    assume "overlaps n1 n2"
    with o self1 self2 show "\<exists>v a. in_range n1 v a \<and> in_range n2 v a" by blast
  next
    assume "\<exists>v a. in_range n1 v a \<and> in_range n2 v a"
    then obtain a where a: "a1 \<le> a" "a \<le> broadcast_address n1" "a2 \<le> a"
        "a \<le> broadcast_address n2"
      by (auto simp add: in_range_def N1 N2)
    show "overlaps n1 n2"
    proof (cases "a1 \<le> a2")
      case True
      with a have "in_range n1 v1 a2" by (simp add: in_range_def N1)
      with o show ?thesis by simp
    next
      case False
      with a have "in_range n2 v1 a1" by (simp add: in_range_def N2)
      with o show ?thesis by simp
    qed
  qed
qed

lemma ip_network_normalised:
  assumes "ip_network env s = Inr net"
  obtains packed :: nat where
    "net = Network (version net)
       (Bit_Operations.and packed (ip_int_from_prefix (version net) (prefixlen net)))
       (prefixlen net)"
  using assms by (auto simp add: ip_network_def split: sum.splits)

lemma forbidden_normalised:
  assumes "f \<in> set FORBIDDEN_RANGES"
  shows "f = Network (version f)
       (Bit_Operations.and (network_address f) (ip_int_from_prefix (version f) (prefixlen f)))
       (prefixlen f)"
  using assms by (auto simp add: FORBIDDEN_RANGES_def ip_int_from_prefix_def ALL_ONES_def)

lemma overlaps_forbidden_iff:
  assumes "ip_network env s = Inr net" and "f \<in> set FORBIDDEN_RANGES"
  shows "overlaps net f \<longleftrightarrow> (\<exists>v a. in_range net v a \<and> in_range f v a)"
proof -
  from assms(1) obtain packed :: nat where
    n: "net = Network (version net)
       (Bit_Operations.and packed (ip_int_from_prefix (version net) (prefixlen net)))
       (prefixlen net)"
    by (rule ip_network_normalised)
  show ?thesis
    by (rule overlaps_iff_common_address [OF n forbidden_normalised [OF assms(2)]])
qed

subsection \<open>Forbidden ranges\<close>

text \<open>
  Claim C4. When the stripped target parses to a network whose address range shares an
  address \<open>a\<close> with one of the four forbidden ranges, \<open>validate_target\<close> returns the
  forbidden-range error, naming a forbidden range that the network overlaps; and
  \<open>validate_and_prepare_scan\<close> returns the same error for every scan type and every
  custom-argument value.
\<close>

theorem forbidden_range_rejected:
  assumes net: "ip_network env (strip tgt) = Inr net"
    and f: "f \<in> set FORBIDDEN_RANGES"
    and a: "in_range net v a" "in_range f v a"
  shows "\<exists>forbidden. forbidden \<in> set FORBIDDEN_RANGES \<and> overlaps net forbidden \<and>
           validate_target env tgt = Inl (ForbiddenRange (strip tgt) forbidden) \<and>
           validate_and_prepare_scan env self tgt stype cargs =
             Inl (ForbiddenRange (strip tgt) forbidden)"
proof -
  have "overlaps net f"
    using overlaps_forbidden_iff [OF net f] a by blast
  with f have "find (overlaps net) FORBIDDEN_RANGES \<noteq> None"
    by (auto simp add: find_None_iff)
  then obtain forbidden where fd: "find (overlaps net) FORBIDDEN_RANGES = Some forbidden"
    by auto
  then have "forbidden \<in> set FORBIDDEN_RANGES" "overlaps net forbidden"
    by (auto simp add: find_Some_iff in_set_conv_nth)
  moreover have v: "validate_target env tgt = Inl (ForbiddenRange (strip tgt) forbidden)"
    by (simp add: validate_target_def net fd)
  moreover have "validate_and_prepare_scan env self tgt stype cargs =
      Inl (ForbiddenRange (strip tgt) forbidden)"
    by (simp add: validate_and_prepare_scan_def v)
  ultimately show ?thesis by blast
qed

theorem forbidden_range_rejected_witness:
  "ip_network example_env (strip ''127.0.0.1'') = Inr (Network IPv4 2130706433 32) \<and>
   Network IPv4 0x7F000000 8 \<in> set FORBIDDEN_RANGES \<and>
   in_range (Network IPv4 2130706433 32) IPv4 2130706433 \<and>
   in_range (Network IPv4 0x7F000000 8) IPv4 2130706433 \<and>
   validate_target example_env ''127.0.0.1'' =
     Inl (ForbiddenRange ''127.0.0.1'' (Network IPv4 0x7F000000 8)) \<and>
   validate_and_prepare_scan example_env \<lparr>nmap_path = ''/usr/bin/nmap'', timeout = 300\<rparr>
       ''127.0.0.1'' ''quick'' None =
     Inl (ForbiddenRange ''127.0.0.1'' (Network IPv4 0x7F000000 8))"
proof -
  have n: "ip_network example_env (strip ''127.0.0.1'') = Inr (Network IPv4 2130706433 32)"
    by (simp add: strip_examples ip_network_examples)
  have f: "Network IPv4 0x7F000000 8 \<in> set FORBIDDEN_RANGES"
    by (simp add: FORBIDDEN_RANGES_def)
  have a1: "in_range (Network IPv4 2130706433 32) IPv4 2130706433"
    by (simp add: in_range_def broadcast_address_def hostmask_def netmask_def
        ip_int_from_prefix_def ALL_ONES_def)
  have a2: "in_range (Network IPv4 0x7F000000 8) IPv4 2130706433"
    by (simp add: in_range_def broadcast_address_def hostmask_def netmask_def
        ip_int_from_prefix_def ALL_ONES_def)
  have v: "validate_target example_env ''127.0.0.1'' =
      Inl (ForbiddenRange ''127.0.0.1'' (Network IPv4 0x7F000000 8))"
    by (simp add: validate_target_def strip_examples ip_network_examples
        FORBIDDEN_RANGES_def overlaps_def contains_def netmask_def hostmask_def
        broadcast_address_def ip_int_from_prefix_def ALL_ONES_def)
  from forbidden_range_rejected [OF n f a1 a2,
      of "\<lparr>nmap_path = ''/usr/bin/nmap'', timeout = 300\<rparr>" "''quick''" None]
  show ?thesis using n f a1 a2 v by auto
qed

subsection \<open>Size ceilings\<close>

text \<open>
  Claim C5. When the stripped target parses to a network whose address range shares no
  address with a forbidden range, the network has \<open>2 ^ (max_prefixlen - prefixlen)\<close>
  addresses, and \<open>validate_target\<close> returns the too-large error exactly when that count
  exceeds the ceiling of the family, 256 for IPv4 and 65536 for IPv6; otherwise it
  accepts. The target \<^verbatim>\<open>10.0.0.0/8\<close>, which the library parses as the IPv4 address
  167772160 with prefix length 8, is rejected as too large, with 16777216 addresses.
\<close>

theorem range_too_large_exactly_above_ceiling:
  "(ip_network env (strip tgt) = Inr net \<longrightarrow>
    (\<forall>f \<in> set FORBIDDEN_RANGES. \<forall>v a. \<not> (in_range net v a \<and> in_range f v a)) \<longrightarrow>
      num_addresses net = 2 ^ (max_prefixlen (version net) - prefixlen net) \<and>
      validate_target env tgt =
        (if num_addresses net > (case version net of IPv4 \<Rightarrow> 256 | IPv6 \<Rightarrow> 65536)
         then Inl (NetworkTooLarge (num_addresses net)
                     (case version net of IPv4 \<Rightarrow> 256 | IPv6 \<Rightarrow> 65536))
         else Inr ()) \<and>
      ((\<exists>n m. validate_target env tgt = Inl (NetworkTooLarge n m)) \<longleftrightarrow>
         num_addresses net > (case version net of IPv4 \<Rightarrow> 256 | IPv6 \<Rightarrow> 65536))) \<and>
   (parse_network env ''10.0.0.0/8'' = Inr (IPv4, 167772160, 8) \<longrightarrow>
      validate_target env ''10.0.0.0/8'' = Inl (NetworkTooLarge 16777216 256))"
proof (intro conjI impI)
  assume net: "ip_network env (strip tgt) = Inr net"
    and no: "\<forall>f \<in> set FORBIDDEN_RANGES. \<forall>v a. \<not> (in_range net v a \<and> in_range f v a)"
  from net obtain packed :: nat where
    n: "net = Network (version net)
       (Bit_Operations.and packed (ip_int_from_prefix (version net) (prefixlen net)))
       (prefixlen net)"
    by (rule ip_network_normalised)
  show "num_addresses net = 2 ^ (max_prefixlen (version net) - prefixlen net)"
    using normalised_bounds(3) [OF refl, of "version net" packed "prefixlen net"] n by simp
  have "\<forall>f \<in> set FORBIDDEN_RANGES. \<not> overlaps net f"
    using overlaps_forbidden_iff [OF net] no by blast
  then have fd: "find (overlaps net) FORBIDDEN_RANGES = None"
    by (simp add: find_None_iff)
  show v: "validate_target env tgt =
      (if num_addresses net > (case version net of IPv4 \<Rightarrow> 256 | IPv6 \<Rightarrow> 65536)
       then Inl (NetworkTooLarge (num_addresses net)
                   (case version net of IPv4 \<Rightarrow> 256 | IPv6 \<Rightarrow> 65536))
       else Inr ())"
    by (simp add: validate_target_def net fd MAX_IPV4_HOSTS_def MAX_IPV6_HOSTS_def
        split: ip_version.splits)
  show "(\<exists>n m. validate_target env tgt = Inl (NetworkTooLarge n m)) \<longleftrightarrow>
         num_addresses net > (case version net of IPv4 \<Rightarrow> 256 | IPv6 \<Rightarrow> 65536)"
    unfolding v by auto
next
  assume "parse_network env ''10.0.0.0/8'' = Inr (IPv4, 167772160, 8)"
  then show "validate_target env ''10.0.0.0/8'' = Inl (NetworkTooLarge 16777216 256)"
    by (simp add: validate_target_def ip_network_def string_defs network_defs)
qed

theorem range_too_large_exactly_above_ceiling_witness:
  "ip_network example_env (strip ''10.0.0.0/8'') = Inr (Network IPv4 167772160 8) \<and>
   parse_network example_env ''10.0.0.0/8'' = Inr (IPv4, 167772160, 8) \<and>
   num_addresses (Network IPv4 167772160 8) = 16777216 \<and>
   validate_target example_env ''10.0.0.0/8'' = Inl (NetworkTooLarge 16777216 256)"
proof -
  have n: "ip_network example_env (strip ''10.0.0.0/8'') = Inr (Network IPv4 167772160 8)"
    by (simp add: strip_examples ip_network_examples)
  have p: "parse_network example_env ''10.0.0.0/8'' = Inr (IPv4, 167772160, 8)"
    by (simp add: example_env_def)
  have no: "\<forall>f \<in> set FORBIDDEN_RANGES. \<forall>v a.
      \<not> (in_range (Network IPv4 167772160 8) v a \<and> in_range f v a)"
    by (simp add: FORBIDDEN_RANGES_def in_range_def broadcast_address_def hostmask_def
        netmask_def ip_int_from_prefix_def ALL_ONES_def)
  from range_too_large_exactly_above_ceiling
    [of example_env "''10.0.0.0/8''" "Network IPv4 167772160 8"] n p no
  show ?thesis by simp
qed

section \<open>The denylist rejects shell metacharacters\<close>

lemma prefix_match_nullable: "nullable r \<Longrightarrow> prefix_match r s"
  by (cases s) simp_all

lemma re_search_In: "c \<in> set s \<Longrightarrow> c \<in> set cs \<Longrightarrow> re_search (In cs) s"
  by (induction s) (auto simp add: prefix_match_nullable)

lemma collect_safe_args_eq: "collect_safe_args acc xs = acc @ xs"
  by (induction xs arbitrary: acc) simp_all

lemma metachar_found:
  assumes "c \<in> set args" and "c \<in> set ''`$;&|<>''"
  shows "find (\<lambda>(pattern, r). re_search r args) forbidden_patterns \<noteq> None"
proof -
  from assms(2) have "c \<in> set ''$`'' \<or> c \<in> set '';&|<>''" by auto
  then have "re_search (In ''$`'') args \<or> re_search (In '';&|<>'') args"
    using assms(1) by (auto intro: re_search_In)
  then have "\<exists>x \<in> set forbidden_patterns. (\<lambda>(pattern, r). re_search r args) x"
    by (auto simp add: forbidden_patterns_def)
  then show ?thesis unfolding find_None_iff by blast
qed

text \<open>
  Claim C2. A custom-argument string \<open>args\<close> that contains one of the characters
  \<^verbatim>\<open>` $ ; & | < >\<close> is rejected by \<open>sanitize_custom_args\<close> with the message
  that names a pattern of the denylist, and that pattern matches \<open>args\<close>. With the scan
  type \<^verbatim>\<open>custom\<close>, \<open>scan\<close> then returns a failure and leaves the world as it
  was, so no process is created, whatever the target; when the target passes
  \<open>validate_target\<close>, the failure carries the sanitizer's message.
\<close>

theorem sanitizer_rejects_shell_metacharacters:
  assumes "c \<in> set args" and "c \<in> set ''`$;&|<>''"
  shows "\<exists>pattern r. (pattern, r) \<in> set forbidden_patterns \<and> re_search r args \<and>
           sanitize_custom_args args = Inl (ForbiddenPattern pattern) \<and>
           (validate_target env tgt = Inr () \<longrightarrow>
              scan env self tgt ''custom'' (Some args) w =
                ((Failure (ForbiddenPattern pattern) None None, tgt, ''custom''), w)) \<and>
           (\<exists>e. scan env self tgt ''custom'' (Some args) w =
                  ((Failure e None None, tgt, ''custom''), w))"
proof -
  from metachar_found [OF assms] obtain pattern r
    where f: "find (\<lambda>(pattern, r). re_search r args) forbidden_patterns = Some (pattern, r)"
    by (cases "find (\<lambda>(pattern, r). re_search r args) forbidden_patterns") auto
  then have mem: "(pattern, r) \<in> set forbidden_patterns" and m: "re_search r args"
    by (auto simp add: find_Some_iff in_set_conv_nth)
  have san: "sanitize_custom_args args = Inl (ForbiddenPattern pattern)"
    by (simp add: sanitize_custom_args_def f)
  from assms(1) have ne: "args \<noteq> []" by auto
  have "scan env self tgt ''custom'' (Some args) w =
          ((Failure (ForbiddenPattern pattern) None None, tgt, ''custom''), w)"
    if "validate_target env tgt = Inr ()"
    using that ne
    by (simp add: scan_def validate_and_prepare_scan_def validate_scan_type_def
        allowed_types_def san)
  moreover have "\<exists>e. scan env self tgt ''custom'' (Some args) w =
      ((Failure e None None, tgt, ''custom''), w)"
    using ne
    by (cases "validate_target env tgt")
      (simp_all add: scan_def validate_and_prepare_scan_def validate_scan_type_def
        allowed_types_def san)
  ultimately show ?thesis using mem m san by blast
qed

theorem sanitizer_rejects_shell_metacharacters_witness:
  "CHR '';'' \<in> set ''-T4; rm -rf /'' \<and> CHR '';'' \<in> set ''`$;&|<>'' \<and>
   validate_target example_env ''192.168.1.5'' = Inr () \<and>
   sanitize_custom_args ''-T4; rm -rf /'' = Inl (ForbiddenPattern ''[;&|<>]'') \<and>
   scan example_env \<lparr>nmap_path = ''/usr/bin/nmap'', timeout = 300\<rparr> ''192.168.1.5'' ''custom''
       (Some ''-T4; rm -rf /'') world0 =
     ((Failure (ForbiddenPattern ''[;&|<>]'') None None, ''192.168.1.5'', ''custom''), world0)"
proof -
  have h1: "CHR '';'' \<in> set ''-T4; rm -rf /''" by simp
  have h2: "CHR '';'' \<in> set ''`$;&|<>''" by simp
  have s: "sanitize_custom_args ''-T4; rm -rf /'' = Inl (ForbiddenPattern ''[;&|<>]'')"
    by (simp add: sanitize_custom_args_def pattern_defs)
  from sanitizer_rejects_shell_metacharacters [OF h1 h2, of example_env "''192.168.1.5''"
      "\<lparr>nmap_path = ''/usr/bin/nmap'', timeout = 300\<rparr>" world0]
  show ?thesis using h1 h2 s validate_target_example by auto
qed

section \<open>The assembled command\<close>

text \<open>
  Claim C6. For a target that passes \<open>validate_target\<close>: a scan type that is a key of
  the profile table gives the command \<^verbatim>\<open>[nmap_path, ...profile, "-oX", "-", target]\<close>;
  custom arguments that pass the sanitizer are the whitespace-separated tokens of the
  string and give \<^verbatim>\<open>[nmap_path, ...tokens, "-oX", "-", target]\<close>; and every
  command that \<open>validate_and_prepare_scan\<close> returns has this shape, with the target as
  its last token.
\<close>

theorem command_vector_shape:
  assumes "validate_target env tgt = Inr ()"
  shows "(map_of SCAN_PROFILES stype = Some args \<longrightarrow>
            validate_and_prepare_scan env self tgt stype cargs =
              Inr ([nmap_path self] @ args @ [''-oX'', ''-'', tgt])) \<and>
         (sanitize_custom_args custom = Inr safe_args \<longrightarrow> custom \<noteq> [] \<longrightarrow>
            safe_args = split custom \<and>
            validate_and_prepare_scan env self tgt ''custom'' (Some custom) =
              Inr ([nmap_path self] @ safe_args @ [''-oX'', ''-'', tgt])) \<and>
         (validate_and_prepare_scan env self tgt stype cargs = Inr command \<longrightarrow>
            (\<exists>args. command = [nmap_path self] @ args @ [''-oX'', ''-'', tgt]) \<and>
            last command = tgt)"
proof (intro conjI impI)
  assume "map_of SCAN_PROFILES stype = Some args"
  then show "validate_and_prepare_scan env self tgt stype cargs =
      Inr ([nmap_path self] @ args @ [''-oX'', ''-'', tgt])"
    using assms
    by (auto simp add: validate_and_prepare_scan_def validate_scan_type_def allowed_types_def
        profile_args_def SCAN_PROFILES_def split: if_splits)
next
  assume s: "sanitize_custom_args custom = Inr safe_args" and ne: "custom \<noteq> []"
  from s show "safe_args = split custom"
    by (auto simp add: sanitize_custom_args_def collect_safe_args_eq split: option.splits)
  from s ne show "validate_and_prepare_scan env self tgt ''custom'' (Some custom) =
      Inr ([nmap_path self] @ safe_args @ [''-oX'', ''-'', tgt])"
    using assms
    by (simp add: validate_and_prepare_scan_def validate_scan_type_def allowed_types_def)
next
  assume c: "validate_and_prepare_scan env self tgt stype cargs = Inr command"
  then show "\<exists>args. command = [nmap_path self] @ args @ [''-oX'', ''-'', tgt]"
    using assms
    by (auto simp add: validate_and_prepare_scan_def Let_def split: sum.splits if_splits)
  from c show "last command = tgt"
    using assms
    by (auto simp add: validate_and_prepare_scan_def Let_def split: sum.splits if_splits)
qed

theorem command_vector_shape_witness:
  "validate_target example_env ''192.168.1.5'' = Inr () \<and>
   map_of SCAN_PROFILES ''quick'' = Some [''-T4'', ''-F''] \<and>
   validate_and_prepare_scan example_env \<lparr>nmap_path = ''/usr/bin/nmap'', timeout = 300\<rparr>
       ''192.168.1.5'' ''quick'' None =
     Inr [''/usr/bin/nmap'', ''-T4'', ''-F'', ''-oX'', ''-'', ''192.168.1.5''] \<and>
   sanitize_custom_args ''-sV -p 22'' = Inr [''-sV'', ''-p'', ''22''] \<and>
   validate_and_prepare_scan example_env \<lparr>nmap_path = ''/usr/bin/nmap'', timeout = 300\<rparr>
       ''192.168.1.5'' ''custom'' (Some ''-sV -p 22'') =
     Inr [''/usr/bin/nmap'', ''-sV'', ''-p'', ''22'', ''-oX'', ''-'', ''192.168.1.5''] \<and>
   last [''/usr/bin/nmap'', ''-T4'', ''-F'', ''-oX'', ''-'', ''192.168.1.5''] = ''192.168.1.5''"
proof -
  have p: "map_of SCAN_PROFILES ''quick'' = Some [''-T4'', ''-F'']"
    by (simp add: SCAN_PROFILES_def)
  have s: "sanitize_custom_args ''-sV -p 22'' = Inr [''-sV'', ''-p'', ''22'']"
    by (simp add: sanitize_custom_args_def pattern_defs split_def isspace_def)
  from command_vector_shape [OF validate_target_example,
      of "''quick''" "[''-T4'', ''-F'']" "\<lparr>nmap_path = ''/usr/bin/nmap'', timeout = 300\<rparr>" None
         "''-sV -p 22''" "[''-sV'', ''-p'', ''22'']"
         "[''/usr/bin/nmap'', ''-T4'', ''-F'', ''-oX'', ''-'', ''192.168.1.5'']"]
  show ?thesis using p s validate_target_example by simp
qed

text \<open>
  Claim C10. \<^verbatim>\<open>custom\<close> is not a key of the profile table. With the scan type
  \<^verbatim>\<open>custom\<close> and custom arguments that are \<^verbatim>\<open>None\<close> or the empty string, a
  target that passes \<open>validate_target\<close> gives the command of the \<^verbatim>\<open>default\<close>
  profile, \<^verbatim>\<open>[nmap_path, "-T4", "-Pn", "-oX", "-", target]\<close>.
\<close>

theorem custom_without_args_uses_default_profile:
  assumes "validate_target env tgt = Inr ()" and "cargs = None \<or> cargs = Some []"
  shows "map_of SCAN_PROFILES ''custom'' = None \<and>
         map_of SCAN_PROFILES ''default'' = Some [''-T4'', ''-Pn''] \<and>
         validate_and_prepare_scan env self tgt ''custom'' cargs =
           Inr [nmap_path self, ''-T4'', ''-Pn'', ''-oX'', ''-'', tgt]"
  using assms
  by (auto simp add: validate_and_prepare_scan_def validate_scan_type_def allowed_types_def
      profile_args_def SCAN_PROFILES_def)

theorem custom_without_args_uses_default_profile_witness:
  "validate_target example_env ''192.168.1.5'' = Inr () \<and>
   validate_and_prepare_scan example_env \<lparr>nmap_path = ''/usr/bin/nmap'', timeout = 300\<rparr>
       ''192.168.1.5'' ''custom'' None =
     Inr [''/usr/bin/nmap'', ''-T4'', ''-Pn'', ''-oX'', ''-'', ''192.168.1.5''] \<and>
   validate_and_prepare_scan example_env \<lparr>nmap_path = ''/usr/bin/nmap'', timeout = 300\<rparr>
       ''192.168.1.5'' ''custom'' (Some []) =
     Inr [''/usr/bin/nmap'', ''-T4'', ''-Pn'', ''-oX'', ''-'', ''192.168.1.5'']"
  using custom_without_args_uses_default_profile [OF validate_target_example,
      of None "\<lparr>nmap_path = ''/usr/bin/nmap'', timeout = 300\<rparr>"]
    custom_without_args_uses_default_profile [OF validate_target_example,
      of "Some []" "\<lparr>nmap_path = ''/usr/bin/nmap'', timeout = 300\<rparr>"]
    validate_target_example
  by simp

section \<open>The lifecycle record\<close>

text \<open>
  Claim C7. After \<open>update_status\<close> with the status \<^verbatim>\<open>running\<close>, a
  \<^verbatim>\<open>started_at\<close> that was set is unchanged and one that was unset holds the
  reading of the clock; a second transition to \<^verbatim>\<open>running\<close> leaves the value of
  the first.
\<close>

theorem running_keeps_started_at:
  "started_at (fst (update_status env RUNNING msg sc w)) =
     (case started_at sc of
        None \<Rightarrow> Some (clock env (Suc (clock_reads w)))
      | Some t \<Rightarrow> Some t) \<and>
   started_at (fst (update_status env RUNNING msg' (fst (update_status env RUNNING msg sc w)) w')) =
     started_at (fst (update_status env RUNNING msg sc w))"
  by (simp add: update_status_def utcnow_def ScanStatus_defs Let_def
      split: option.splits prod.splits)

lemma update_status_fields:
  "status (fst (update_status env st msg sc w)) = st"
  "raw_output (fst (update_status env st msg sc w)) = raw_output sc"
  "parsed_results (fst (update_status env st msg sc w)) = parsed_results sc"
  "hosts_up (fst (update_status env st msg sc w)) = hosts_up sc"
  "ports_found (fst (update_status env st msg sc w)) = ports_found sc"
  "vulnerabilities_found (fst (update_status env st msg sc w)) = vulnerabilities_found sc"
  "error_message (fst (update_status env st None sc w)) = error_message sc"
  by (simp_all add: update_status_def utcnow_def Let_def split_beta split: option.splits)

lemma update_status_completed_at:
  "completed_at (fst (update_status env st msg sc w)) =
     (if st = RUNNING \<and> started_at sc = None then completed_at sc
      else if st = COMPLETED \<or> st = FAILED then Some (clock env (Suc (clock_reads w)))
      else completed_at sc)"
  by (simp add: update_status_def utcnow_def ScanStatus_defs Let_def split_beta
      split: option.splits)

lemma example_failed_scan_fields:
  "status example_failed_scan = ''failed''" "completed_at example_failed_scan = Some 3"
  "error_message example_failed_scan = Some (Raised ''Connection refused'')"
  by (simp_all add: example_failed_scan_def update_status_def utcnow_def example_defs
      ScanStatus_defs ex_clock Let_def)

text \<open>
  The scan whose task could not be queued is \<^verbatim>\<open>failed\<close> with
  \<^verbatim>\<open>completed_at\<close> set, and the equivalence holds for it. \<open>update_status\<close> with
  \<^verbatim>\<open>running\<close> on this record gives a record that is \<^verbatim>\<open>running\<close> with
  \<^verbatim>\<open>completed_at\<close> still set: the operation has not preserved the equivalence.
\<close>

theorem running_after_failure_breaks_lifecycle_equivalence:
  "status example_failed_scan = ''failed'' \<and>
   completed_at example_failed_scan = Some 3 \<and>
   lifecycle_inv example_failed_scan \<and>
   status (fst (update_status example_env RUNNING None example_failed_scan world0)) = ''running'' \<and>
   completed_at (fst (update_status example_env RUNNING None example_failed_scan world0)) = Some 3 \<and>
   \<not> lifecycle_inv (fst (update_status example_env RUNNING None example_failed_scan world0))"
  by (simp add: lifecycle_inv_def terminal_def example_failed_scan_fields
      update_status_fields update_status_completed_at ScanStatus_defs)

text \<open>
  Claim C1, amended. \<open>update_status\<close> with \<^verbatim>\<open>completed\<close> or \<^verbatim>\<open>failed\<close>
  sets \<^verbatim>\<open>completed_at\<close>, so the equivalence holds afterwards for every record;
  \<open>update_status\<close> with \<^verbatim>\<open>running\<close> leaves \<^verbatim>\<open>completed_at\<close> as it was,
  so the equivalence holds afterwards exactly when \<^verbatim>\<open>completed_at\<close> was unset; and
  it holds for a record as first stored.
\<close>

theorem lifecycle_equivalence_after_update_status:
  "(st = COMPLETED \<or> st = FAILED \<longrightarrow> lifecycle_inv (fst (update_status env st msg sc w))) \<and>
   completed_at (fst (update_status env RUNNING msg sc w)) = completed_at sc \<and>
   (lifecycle_inv (fst (update_status env RUNNING msg sc w)) \<longleftrightarrow> completed_at sc = None) \<and>
   lifecycle_inv (fst (new_scan env new_id user tgt stype cargs prio w))"
proof (intro conjI impI)
  assume "st = COMPLETED \<or> st = FAILED"
  then show "lifecycle_inv (fst (update_status env st msg sc w))"
    by (auto simp add: lifecycle_inv_def terminal_def update_status_fields
        update_status_completed_at ScanStatus_defs)
next
  show "completed_at (fst (update_status env RUNNING msg sc w)) = completed_at sc"
    by (simp add: update_status_completed_at ScanStatus_defs)
  show "lifecycle_inv (fst (update_status env RUNNING msg sc w)) \<longleftrightarrow> completed_at sc = None"
    by (simp add: lifecycle_inv_def terminal_def update_status_fields
        update_status_completed_at ScanStatus_defs)
  show "lifecycle_inv (fst (new_scan env new_id user tgt stype cargs prio w))"
    by (simp add: lifecycle_inv_def terminal_def new_scan_def utcnow_def ScanStatus_defs
        Let_def)
qed

theorem lifecycle_equivalence_after_update_status_witness:
  "(FAILED = COMPLETED \<or> FAILED = FAILED) \<and>
   lifecycle_inv (fst (update_status example_env FAILED None example_scan world1)) \<and>
   completed_at example_scan = None \<and>
   lifecycle_inv (fst (update_status example_env RUNNING None example_scan world1)) \<and>
   lifecycle_inv example_scan"
proof -
  have c: "completed_at example_scan = None"
    by (simp add: example_defs utcnow_def Let_def)
  from lifecycle_equivalence_after_update_status
    [where st = FAILED and env = example_env and msg = None and sc = example_scan
       and w = world1]
    lifecycle_equivalence_after_update_status
    [where st = FAILED and env = example_env and msg = None and sc = example_scan
       and w = world0 and new_id = 1 and user = 1 and tgt = "''192.168.1.5''"
       and stype = "''default''" and cargs = None and prio = 5] c
  show ?thesis by (simp add: example_scan_def)
qed

text \<open>
  Cancellation: \<open>update_status\<close> with \<^verbatim>\<open>cancelled\<close> sets no time stamp, so a
  queued scan that is cancelled is terminal with \<^verbatim>\<open>completed_at\<close> unset.
\<close>

lemma cancel_leaves_completed_at_unset:
  "fst (fst (cancel_scan example_env example_scan world1)) = 200 \<and>
   status (snd (fst (cancel_scan example_env example_scan world1))) = ''cancelled'' \<and>
   completed_at (snd (fst (cancel_scan example_env example_scan world1))) = None"
  by (simp add: example_defs cancel_scan_def update_status_def utcnow_def ScanStatus_defs
      Let_def)

section \<open>The worker\<close>

text \<open>
  How \<open>execute_scan_task\<close> ends: it raises when the Flask application is not attached
  to the task, and otherwise, after a successful scan, it commits the record as
  completed.
\<close>

lemma execute_scan_task_raises:
  assumes "\<not> db_loaded self"
  shows "execute_scan_task env self rid sc tgt stype cargs w = Inl AttributeError"
  using assms by (simp add: execute_scan_task_def get_app_context_def)

lemma execute_scan_task_success:
  assumes "db_loaded self"
    and "run_nmap_scan env tgt stype cargs (snd (update_status env RUNNING None sc w)) =
           ((Success out parsed d ts, x), w2)"
  shows "execute_scan_task env self rid sc tgt stype cargs w =
     Inr (update_status env COMPLETED None
       ((if stype = ''vuln''
         then (\<lambda>r. r\<lparr>vulnerabilities_found := count_vulnerabilities (hosts_of parsed)\<rparr>)
         else (\<lambda>r. r))
        ((fst (update_status env RUNNING None sc w))
           \<lparr>task_id := Some rid, raw_output := Some out, parsed_results := Some parsed,
             duration_seconds := Some d,
             hosts_up := (case stats_of parsed of None \<Rightarrow> 0 | Some s \<Rightarrow> stat_hosts_up s),
             ports_found := (case stats_of parsed of None \<Rightarrow> 0 | Some s \<Rightarrow> stat_total_ports s)\<rparr>))
       w2)"
  using assms by (simp add: execute_scan_task_def get_app_context_def split_beta Let_def)

lemma committed_Inr: "committed (Inr r) = Some (fst r)"
  by (simp add: committed_def split_beta)

lemma run_nmap_scan_parsed:
  assumes "run_nmap_scan env tgt stype cargs w = ((Success out parsed d ts, x), w2)"
  shows "parsed = parse_nmap_xml env out"
  using assms
  by (auto simp add: run_nmap_scan_def scan_def execute_scan_def Let_def split_beta
      split: sum.splits run_outcome.splits if_splits)

text \<open>
  When the tool exits with code 0 and the parser rejects its output, \<open>execute_scan\<close>
  and \<open>run_nmap_scan\<close> report success, with the raw output and the parse error.
\<close>

lemma execute_scan_unparsable:
  assumes tool: "subprocess_run env command (timeout scanner) = CompletedProcess 0 out err"
    and bad: "fromstring env out = Inl e"
  shows "execute_scan env scanner command w =
     (Success out (ParseFailed e)
        (clock env (Suc (clock_reads w)) - clock env (clock_reads w)) (clock env (clock_reads w)),
      w\<lparr>clock_reads := Suc (Suc (clock_reads w)), spawned := spawned w @ [command]\<rparr>)"
  by (simp add: execute_scan_def utcnow_def run_process_def tool parse_nmap_xml_def bad)

lemma run_nmap_scan_unparsable_output:
  assumes init: "NmapScanner_init env ''/usr/bin/nmap'' 300 w = (Inr scanner, w1)"
    and prep: "validate_and_prepare_scan env scanner tgt stype cargs = Inr command"
    and tool: "subprocess_run env command (timeout scanner) = CompletedProcess 0 out err"
    and bad: "fromstring env out = Inl e"
  shows "run_nmap_scan env tgt stype cargs w =
     ((fst (execute_scan env scanner command w1), tgt, stype),
      snd (execute_scan env scanner command w1))"
  by (simp add: run_nmap_scan_def init scan_def prep split_beta)

text \<open>
  For the target 192.168.1.5 the tool prints text that the parser rejects at the top
  level, and the scan reports success. A task with the application attached leaves the
  record \<^verbatim>\<open>completed\<close>, not \<^verbatim>\<open>failed\<close>, with the raw output stored; the
  task as the worker holds it raises and leaves the record \<^verbatim>\<open>queued\<close>, with no
  raw output.
\<close>

theorem unparsable_output_is_not_failed:
  "parse_nmap_xml example_env ''not xml'' = ParseFailed ''syntax error: line 1, column 0'' \<and>
   fst (fst (run_nmap_scan example_env ''192.168.1.5'' ''default'' None world1)) =
     Success ''not xml'' (ParseFailed ''syntax error: line 1, column 0'') 1 2 \<and>
   map_option status
     (committed (execute_scan_task example_env attached_task ''task-1'' example_scan
                   ''192.168.1.5'' ''default'' None world1)) = Some ''completed'' \<and>
   map_option raw_output
     (committed (execute_scan_task example_env attached_task ''task-1'' example_scan
                   ''192.168.1.5'' ''default'' None world1)) = Some (Some ''not xml'') \<and>
   execute_scan_task example_env worker_task ''task-1'' example_scan
       ''192.168.1.5'' ''default'' None world1 = Inl AttributeError \<and>
   status example_scan = ''queued'' \<and> raw_output example_scan = None \<and>
   ''completed'' \<noteq> ''failed'' \<and> ''queued'' \<noteq> ''failed''"
proof -
  have a: "db_loaded attached_task" by (simp add: attached_task_def)
  have b: "\<not> db_loaded worker_task" by (simp add: worker_task_def)
  show ?thesis
    by (simp add: parse_nmap_xml_def ex_fromstring_unparsable run_nmap_scan_unparsable
        execute_scan_task_success [OF a run_nmap_scan_unparsable] committed_Inr
        execute_scan_task_raises [OF b] update_status_fields COMPLETED_def example_defs
        utcnow_def QUEUED_def Let_def)
qed

text \<open>
  Claim C3, amended. When the tool exits with code 0 and the parser rejects its output
  \<open>out\<close> at the top level, the parsed result is the parse error and \<open>execute_scan\<close>
  reports success with \<open>out\<close> and that error; a task with the application attached
  then leaves the record in the terminal state \<^verbatim>\<open>completed\<close> with
  \<^verbatim>\<open>completed_at\<close> set, \<open>out\<close> stored as the raw output, the parse error stored
  as the parsed results, both counters derived from the statistics zero, and the error
  message as it was.
\<close>

theorem unparsable_output_completes_scan:
  assumes ctx: "db_loaded self"
    and init: "NmapScanner_init env ''/usr/bin/nmap'' 300
                 (snd (update_status env RUNNING None sc w)) = (Inr scanner, w1)"
    and prep: "validate_and_prepare_scan env scanner tgt stype cargs = Inr command"
    and tool: "subprocess_run env command (timeout scanner) = CompletedProcess 0 out err"
    and bad: "fromstring env out = Inl e"
  shows "parse_nmap_xml env out = ParseFailed e \<and>
         fst (execute_scan env scanner command w1) =
           Success out (ParseFailed e)
             (clock env (Suc (clock_reads w1)) - clock env (clock_reads w1))
             (clock env (clock_reads w1)) \<and>
         (\<exists>sc'. committed (execute_scan_task env self rid sc tgt stype cargs w) = Some sc' \<and>
            status sc' = COMPLETED \<and> terminal (status sc') \<and> completed_at sc' \<noteq> None \<and>
            raw_output sc' = Some out \<and> parsed_results sc' = Some (ParseFailed e) \<and>
            hosts_up sc' = 0 \<and> ports_found sc' = 0 \<and>
            error_message sc' = error_message sc)"
proof -
  note ex = execute_scan_unparsable [OF tool bad]
  have run: "run_nmap_scan env tgt stype cargs (snd (update_status env RUNNING None sc w)) =
      ((Success out (ParseFailed e)
          (clock env (Suc (clock_reads w1)) - clock env (clock_reads w1))
          (clock env (clock_reads w1)), tgt, stype),
       snd (execute_scan env scanner command w1))"
    using run_nmap_scan_unparsable_output [OF init prep tool bad] by (simp add: ex)
  show ?thesis
    by (simp add: parse_nmap_xml_def bad ex execute_scan_task_success [OF ctx run]
        committed_Inr update_status_fields update_status_completed_at terminal_def
        ScanStatus_defs)
qed

theorem unparsable_output_completes_scan_witness:
  "db_loaded attached_task \<and>
   validate_and_prepare_scan example_env \<lparr>nmap_path = ''/usr/bin/nmap'', timeout = 300\<rparr>
       ''192.168.1.5'' ''default'' None =
     Inr [''/usr/bin/nmap'', ''-T4'', ''-Pn'', ''-oX'', ''-'', ''192.168.1.5''] \<and>
   subprocess_run example_env
       [''/usr/bin/nmap'', ''-T4'', ''-Pn'', ''-oX'', ''-'', ''192.168.1.5''] 300 =
     CompletedProcess 0 ''not xml'' [] \<and>
   fromstring example_env ''not xml'' = Inl ''syntax error: line 1, column 0'' \<and>
   map_option status
     (committed (execute_scan_task example_env attached_task ''task-1'' example_scan
                   ''192.168.1.5'' ''default'' None world1)) = Some COMPLETED \<and>
   map_option raw_output
     (committed (execute_scan_task example_env attached_task ''task-1'' example_scan
                   ''192.168.1.5'' ''default'' None world1)) = Some (Some ''not xml'') \<and>
   map_option parsed_results
     (committed (execute_scan_task example_env attached_task ''task-1'' example_scan
                   ''192.168.1.5'' ''default'' None world1)) =
     Some (Some (ParseFailed ''syntax error: line 1, column 0''))"
proof -
  have ctx: "db_loaded attached_task" by (simp add: attached_task_def)
  have prep: "validate_and_prepare_scan example_env
      \<lparr>nmap_path = ''/usr/bin/nmap'', timeout = 300\<rparr> ''192.168.1.5'' ''default'' None =
      Inr [''/usr/bin/nmap'', ''-T4'', ''-Pn'', ''-oX'', ''-'', ''192.168.1.5'']"
    by (simp add: validate_and_prepare_scan_def validate_target_example validate_scan_type_def
        allowed_types_def profile_args_def SCAN_PROFILES_def)
  have tool: "subprocess_run example_env
      [''/usr/bin/nmap'', ''-T4'', ''-Pn'', ''-oX'', ''-'', ''192.168.1.5'']
      (timeout \<lparr>nmap_path = ''/usr/bin/nmap'', timeout = 300\<rparr>) =
      CompletedProcess 0 ''not xml'' []"
    by (simp add: ex_run_unparsable)
  from unparsable_output_completes_scan
    [where rid = "''task-1''", OF ctx init_example prep tool ex_fromstring_unparsable]
    ctx prep tool ex_fromstring_unparsable
  show ?thesis by auto
qed

lemma fold_count_port:
  "fold count_port ps n = n + int (length (filter has_extrainfo ps))"
  by (induction ps arbitrary: n)
    (auto simp add: count_port_def has_extrainfo_def split: option.splits)

lemma fold_count_hosts:
  "fold (\<lambda>host vuln_count. fold count_port (ports host) vuln_count) hs n =
     n + int (length (filter has_extrainfo (concat (map ports hs))))"
  by (induction hs arbitrary: n) (simp_all add: fold_count_port)

lemma count_vulnerabilities_eq:
  "count_vulnerabilities hs = int (length (filter has_extrainfo (concat (map ports hs))))"
  by (simp add: count_vulnerabilities_def fold_count_hosts)

text \<open>
  Claim C8. When a task with the application attached runs a scan that succeeds with the
  parsed result \<open>parsed\<close>, it leaves the record \<^verbatim>\<open>completed\<close>; for the scan type
  \<^verbatim>\<open>vuln\<close> the record's \<^verbatim>\<open>vulnerabilities_found\<close> is the number of ports,
  over all hosts of \<open>parsed\<close>, whose service carries a non-empty extra-info annotation,
  and for every other scan type it is the value the record had before.
\<close>

theorem vulnerabilities_counted_for_vuln_profile:
  assumes ctx: "db_loaded self"
    and run: "run_nmap_scan env tgt stype cargs (snd (update_status env RUNNING None sc w)) =
                ((Success out parsed d ts, x), w2)"
  shows "\<exists>sc'. committed (execute_scan_task env self rid sc tgt stype cargs w) = Some sc' \<and>
           status sc' = COMPLETED \<and>
           vulnerabilities_found sc' =
             (if stype = ''vuln''
              then int (length (filter has_extrainfo (concat (map ports (hosts_of parsed)))))
              else vulnerabilities_found sc)"
  by (simp add: execute_scan_task_success [OF ctx run] committed_Inr update_status_fields
      count_vulnerabilities_eq)

theorem vulnerabilities_counted_for_vuln_profile_witness:
  "db_loaded attached_task \<and>
   fst (fst (run_nmap_scan example_env ''10.0.0.5'' ''vuln'' None
               (snd (update_status example_env RUNNING None example_vuln_scan world1)))) =
     Success example_xml (parse_nmap_xml example_env example_xml) 1 4 \<and>
   map_option status
     (committed (execute_scan_task example_env attached_task ''task-2'' example_vuln_scan
                   ''10.0.0.5'' ''vuln'' None world1)) = Some COMPLETED \<and>
   map_option vulnerabilities_found
     (committed (execute_scan_task example_env attached_task ''task-2'' example_vuln_scan
                   ''10.0.0.5'' ''vuln'' None world1)) = Some 1 \<and>
   map_option vulnerabilities_found
     (committed (execute_scan_task example_env attached_task ''task-1'' example_scan
                   ''192.168.1.5'' ''default'' None world1)) =
     Some (vulnerabilities_found example_scan)"
proof -
  have ctx: "db_loaded attached_task" by (simp add: attached_task_def)
  have r: "clock_reads (snd (update_status example_env RUNNING None example_vuln_scan world1)) = 4"
    by (simp add: update_status_def utcnow_def example_defs ScanStatus_defs Let_def)
  from vulnerabilities_counted_for_vuln_profile
    [where sc = example_vuln_scan and w = world1 and rid = "''task-2''",
      OF ctx run_nmap_scan_vuln]
    vulnerabilities_counted_for_vuln_profile
    [where sc = example_scan and w = world1 and rid = "''task-1''",
      OF ctx run_nmap_scan_unparsable]
    ctx r
  show ?thesis
    by (auto simp add: run_nmap_scan_vuln example_hosts example_ports has_extrainfo_def)
qed

section \<open>The parser\<close>

lemma hosts_fold_add_host: "hosts (fold add_host els res) = hosts res @ map parse_host els"
  by (induction els arbitrary: res) (simp_all add: add_host_def Let_def)

lemma hosts_of_parse_nmap_xml:
  "hosts_of (parse_nmap_xml env xml_output) =
     (case fromstring env xml_output of
        Inl e \<Rightarrow> []
      | Inr root_el \<Rightarrow> map parse_host (findall root_el ''host''))"
  by (simp add: parse_nmap_xml_def Let_def hosts_fold_add_host split: sum.splits option.splits)

lemma parse_port_Some:
  "parse_port el = Some p \<longleftrightarrow>
     (\<exists>text. get el ''portid'' = Some text \<and> py_int text = Some (portid p) \<and>
        parse_port el = Some p)"
  by (auto simp add: parse_port_def split: option.splits)

text \<open>
  The example document has ports numbered 70000 and 0, and the parser keeps both: the
  port numbers of its result are 22, 70000 and 0.
\<close>

theorem portid_outside_port_range:
  "map portid (concat (map ports (hosts_of (parse_nmap_xml example_env example_xml)))) =
     [22, 70000, 0] \<and>
   (65535 :: int) < 70000 \<and> (0 :: int) < 1"
  by (simp add: example_hosts example_ports)

text \<open>
  Claim C9, amended. Every port \<open>p\<close> of every host of a parsed result comes from a
  \<^verbatim>\<open>port\<close> element, inside the \<^verbatim>\<open>ports\<close> element of a \<^verbatim>\<open>host\<close> element
  of the document, that has a \<^verbatim>\<open>portid\<close> attribute, and the number of \<open>p\<close> is
  the integer that \<^verbatim>\<open>int()\<close> reads from that attribute; no range is imposed on it.
\<close>

theorem portid_is_attribute_value:
  assumes h: "h \<in> set (hosts_of (parse_nmap_xml env xml_output))" and p: "p \<in> set (ports h)"
  shows "\<exists>root_el host_el ports_el port_el text.
           fromstring env xml_output = Inr root_el \<and>
           host_el \<in> set (findall root_el ''host'') \<and> h = parse_host host_el \<and>
           find_el host_el ''ports'' = Some ports_el \<and>
           port_el \<in> set (findall ports_el ''port'') \<and> parse_port port_el = Some p \<and>
           get port_el ''portid'' = Some text \<and> py_int text = Some (portid p)"
proof -
  from h obtain root_el where r: "fromstring env xml_output = Inr root_el"
    by (cases "fromstring env xml_output") (auto simp add: hosts_of_parse_nmap_xml)
  with h obtain host_el where he: "host_el \<in> set (findall root_el ''host'')"
    and hh: "h = parse_host host_el"
    by (auto simp add: hosts_of_parse_nmap_xml)
  from p hh obtain ports_el where pe: "find_el host_el ''ports'' = Some ports_el"
    and pm: "p \<in> set (List.map_filter parse_port (findall ports_el ''port''))"
    by (auto simp add: parse_host_def split: option.splits)
  from pm obtain port_el where el: "port_el \<in> set (findall ports_el ''port'')"
    and pp: "parse_port port_el = Some p"
    by (auto simp add: List.map_filter_def)
  from pp obtain s where "get port_el ''portid'' = Some s" "py_int s = Some (portid p)"
    using parse_port_Some by blast
  with r he hh pe el pp show ?thesis by blast
qed

theorem portid_is_attribute_value_witness:
  "parse_host example_host \<in> set (hosts_of (parse_nmap_xml example_env example_xml)) \<and>
   \<lparr>protocol = Some ''tcp'', portid = 70000, port_state = None, service = None\<rparr>
     \<in> set (ports (parse_host example_host)) \<and>
   (\<exists>root_el host_el ports_el port_el text.
      fromstring example_env example_xml = Inr root_el \<and>
      host_el \<in> set (findall root_el ''host'') \<and> parse_host example_host = parse_host host_el \<and>
      find_el host_el ''ports'' = Some ports_el \<and>
      port_el \<in> set (findall ports_el ''port'') \<and>
      parse_port port_el =
        Some \<lparr>protocol = Some ''tcp'', portid = 70000, port_state = None, service = None\<rparr> \<and>
      get port_el ''portid'' = Some text \<and> py_int text = Some 70000)"
proof -
  have h: "parse_host example_host \<in> set (hosts_of (parse_nmap_xml example_env example_xml))"
    by (simp add: example_hosts)
  have p: "\<lparr>protocol = Some ''tcp'', portid = 70000, port_state = None, service = None\<rparr>
     \<in> set (ports (parse_host example_host))"
    by (simp add: example_ports)
  from portid_is_attribute_value [OF h p] h p show ?thesis by simp
qed

end
